theory Spec2Isabelle
  imports Main "HOL-Library.Sublist" "HOL-Library.Multiset"
begin

section \<open>Python values used by the package\<close>

text \<open>
  Python strings are modelled as \<^typ>\<open>string\<close>, a list of 8-bit characters: the code points
  0 to 255. \<open>None\<close> in an \<open>Optional[str]\<close> field is \<^const>\<open>None\<close>.
\<close>

text \<open>
  The characters \<open>str.strip()\<close> and \<open>str.isspace()\<close> treat as whitespace, among the
  code points below 256: tab, line feed, vertical tab, form feed, carriage return, the four
  separators 0x1C to 0x1F, space, next line (0x85) and no-break space (0xA0).
\<close>

definition whitespace_chars :: "char list" where
  "whitespace_chars =
     [CHR 0x09, CHR 0x0A, CHR 0x0B, CHR 0x0C, CHR 0x0D, CHR 0x1C, CHR 0x1D, CHR 0x1E,
      CHR 0x1F, CHR 0x20, CHR 0x85, CHR 0xA0]"

definition is_space :: "char \<Rightarrow> bool" where
  "is_space c = (c \<in> set whitespace_chars)"

definition lstrip_ws :: "string \<Rightarrow> string" where
  "lstrip_ws s = dropWhile is_space s"

definition rstrip_ws :: "string \<Rightarrow> string" where
  "rstrip_ws s = rev (dropWhile is_space (rev s))"

text \<open>\<open>s.strip()\<close>: leading and trailing whitespace removed.\<close>

definition strip :: "string \<Rightarrow> string" where
  "strip s = rstrip_ws (lstrip_ws s)"

text \<open>\<open>s.isspace()\<close>: at least one character, and every character is whitespace.\<close>

definition isspace :: "string \<Rightarrow> bool" where
  "isspace s = (s \<noteq> [] \<and> list_all is_space s)"

section \<open>Exceptions\<close>

text \<open>
  The exception classes of \<open>exceptions.py\<close> and the built-in and client exceptions the code
  meets, each with its message (\<open>str(exc)\<close>). \<open>OtherException\<close> stands for any other
  subclass of \<open>Exception\<close> that the storage client raises.
\<close>

datatype exn =
    ValueError string
  | TypeError string
  | AttributeError string
  | ClientError string
  | OtherException string
  | CredentialError string
  | AuthenticationError string
  | S3Error string
  | UploadError string

fun exn_str :: "exn \<Rightarrow> string" where
  "exn_str (ValueError m) = m"
| "exn_str (TypeError m) = m"
| "exn_str (AttributeError m) = m"
| "exn_str (ClientError m) = m"
| "exn_str (OtherException m) = m"
| "exn_str (CredentialError m) = m"
| "exn_str (AuthenticationError m) = m"
| "exn_str (S3Error m) = m"
| "exn_str (UploadError m) = m"

section \<open>Configuration (config.py)\<close>

text \<open>
  The dataclass \<open>S3Config\<close>. The bucket name and the directory are annotated \<open>str\<close>, but
  \<open>from_env\<close> fills them with \<open>os.environ.get(...)\<close>, which is \<open>None\<close> for an unset
  variable, so both are optional here.
\<close>

record S3Config =
  s3_bucket_name :: "string option"
  s3_directory :: "string option"
  aws_region :: "string option"
  aws_access_key_id :: "string option"
  aws_secret_access_key :: "string option"
  aws_session_token :: "string option"
  aws_profile :: "string option"
  max_retries :: int
  timeout :: int

text \<open>Truth value of an \<open>Optional[str]\<close>: \<open>None\<close> and the empty string are false.\<close>

fun truthy :: "string option \<Rightarrow> bool" where
  "truthy None = False"
| "truthy (Some s) = (s \<noteq> [])"

text \<open>
  The last test of \<open>validate\<close>, \<open>self.aws_region and not self.aws_region.strip()\<close>: the region
  is a non-empty string that \<open>strip\<close> empties.
\<close>

fun region_blank :: "string option \<Rightarrow> bool" where
  "region_blank None = False"
| "region_blank (Some r) = (r \<noteq> [] \<and> strip r = [])"

text \<open>\<open>S3Config.validate\<close>: the five checks in the order of the source; \<open>Inr ()\<close> is a normal return.\<close>

definition validate :: "S3Config \<Rightarrow> exn + unit" where
  "validate c =
     (if \<not> truthy (s3_bucket_name c) then Inl (ValueError ''Bucket cannot be empty'')
      else if \<not> truthy (s3_directory c) then Inl (ValueError ''Directory cannot be empty'')
      else if max_retries c < 0 then Inl (ValueError ''Max retries cannot be negative'')
      else if timeout c \<le> 0 then Inl (ValueError ''Timeout must be a positive number'')
      else if region_blank (aws_region c)
        then Inl (ValueError ''Region cannot be empty if provided'')
      else Inr ())"

section \<open>Configuration from the environment and keyword arguments\<close>

text \<open>
  \<open>int(s)\<close> for a \<open>str\<close>, base 10, as CPython 3.11 reads it. \<open>None\<close> stands for the
  \<open>ValueError\<close> it raises.

  The whitespace \<open>int\<close> skips around the literal is not that of \<open>str.strip\<close>: a character
  below 127 is kept as it is and skipped only when C's \<open>isspace\<close> holds (tab, line feed,
  vertical tab, form feed, carriage return, space), so the separators 0x1C to 0x1F are
  rejected; a whitespace character above is read as a space, which leaves next line (0x85)
  and no-break space (0xA0) among the code points below 256.
\<close>

definition int_space_chars :: "char list" where
  "int_space_chars =
     [CHR 0x09, CHR 0x0A, CHR 0x0B, CHR 0x0C, CHR 0x0D, CHR 0x20, CHR 0x85, CHR 0xA0]"

definition is_int_space :: "char \<Rightarrow> bool" where
  "is_int_space c = (c \<in> set int_space_chars)"

definition int_strip :: "string \<Rightarrow> string" where
  "int_strip s = rev (dropWhile is_int_space (rev (dropWhile is_int_space s)))"

definition digit_value :: "char \<Rightarrow> nat option" where
  "digit_value c =
     (let n = (of_char c :: nat) in if 48 \<le> n \<and> n \<le> 57 then Some (n - 48) else None)"

text \<open>
  The digits after a first digit, whose value so far is \<open>acc\<close>: single underscores may stand
  between digits.
\<close>

fun dec_digits :: "nat \<Rightarrow> string \<Rightarrow> nat option" where
  "dec_digits acc [] = Some acc"
| "dec_digits acc [c] =
     (case digit_value c of None \<Rightarrow> None | Some v \<Rightarrow> Some (10 * acc + v))"
| "dec_digits acc (c # d # ds) =
     (if c = CHR ''_''
      then (case digit_value d of None \<Rightarrow> None | Some v \<Rightarrow> dec_digits (10 * acc + v) ds)
      else (case digit_value c of None \<Rightarrow> None | Some v \<Rightarrow> dec_digits (10 * acc + v) (d # ds)))"

text \<open>
  The limit on the number of digits of a literal, \<open>sys.get_int_max_str_digits()\<close>, at its
  default. A literal with more digits (underscores not counted) raises \<open>ValueError\<close>.
\<close>

definition int_max_str_digits :: nat where
  "int_max_str_digits = 4300"

text \<open>One sign may lead; a digit must follow it.\<close>

definition py_int :: "string \<Rightarrow> int option" where
  "py_int s =
     (let t = int_strip s;
          negative = (take 1 t = ''-'');
          body = (if take 1 t = ''-'' \<or> take 1 t = ''+'' then drop 1 t else t)
      in case body of
           [] \<Rightarrow> None
         | d # ds \<Rightarrow>
             (case digit_value d of
                None \<Rightarrow> None
              | Some v \<Rightarrow>
                  (case dec_digits v ds of
                     None \<Rightarrow> None
                   | Some n \<Rightarrow>
                       if int_max_str_digits < length (filter (\<lambda>c. c \<noteq> CHR ''_'') body)
                       then None
                       else Some (if negative then - int n else int n))))"

text \<open>
  The \<open>ValueError\<close> of \<open>int\<close>. The literal is shown between single quotes; the escapes that
  \<open>repr\<close> adds for quotes, backslashes and unprintable characters are not modelled.
\<close>

definition int_error :: "string \<Rightarrow> exn" where
  "int_error s = ValueError (''invalid literal for int() with base 10: '' @ [CHR 0x27] @ s @ [CHR 0x27])"

text \<open>\<open>os.environ\<close>, and \<open>os.environ.get(name, default)\<close>.\<close>

type_synonym environ = "string \<rightharpoonup> string"

definition environ_get :: "environ \<Rightarrow> string \<Rightarrow> string \<Rightarrow> string" where
  "environ_get environ name dflt = (case environ name of None \<Rightarrow> dflt | Some v \<Rightarrow> v)"

text \<open>
  \<open>S3Config.from_env\<close>. The arguments are evaluated in the order written, so a bad
  \<open>AWS_MAX_RETRIES\<close> is reported before a bad \<open>AWS_TIMEOUT\<close>.
\<close>

definition from_env :: "environ \<Rightarrow> exn + S3Config" where
  "from_env environ =
     (case py_int (environ_get environ ''AWS_MAX_RETRIES'' ''3'') of
        None \<Rightarrow> Inl (int_error (environ_get environ ''AWS_MAX_RETRIES'' ''3''))
      | Some retries \<Rightarrow>
          (case py_int (environ_get environ ''AWS_TIMEOUT'' ''30'') of
             None \<Rightarrow> Inl (int_error (environ_get environ ''AWS_TIMEOUT'' ''30''))
           | Some seconds \<Rightarrow>
               Inr \<lparr>s3_bucket_name = environ ''S3_BUCKET_NAME'',
                    s3_directory = environ ''S3_DIRECTORY'',
                    aws_region = environ ''AWS_REGION'',
                    aws_access_key_id = environ ''AWS_ACCESS_KEY_ID'',
                    aws_secret_access_key = environ ''AWS_SECRET_ACCESS_KEY'',
                    aws_session_token = environ ''AWS_SESSION_TOKEN'',
                    aws_profile = environ ''AWS_PROFILE'',
                    max_retries = retries,
                    timeout = seconds\<rparr>))"

text \<open>
  The keyword arguments of the constructor that name a field: \<open>None\<close> when the keyword is
  not passed, \<open>Some v\<close> when it is passed with the value \<open>v\<close> (which may itself be \<open>None\<close> for an
  optional string).
\<close>

record kwargs =
  kw_s3_bucket_name :: "string option option"
  kw_s3_directory :: "string option option"
  kw_aws_region :: "string option option"
  kw_aws_access_key_id :: "string option option"
  kw_aws_secret_access_key :: "string option option"
  kw_aws_session_token :: "string option option"
  kw_aws_profile :: "string option option"
  kw_max_retries :: "int option"
  kw_timeout :: "int option"

text \<open>\<open>kwargs.get(name, default)\<close>.\<close>

fun kwargs_get :: "'a option \<Rightarrow> 'a \<Rightarrow> 'a" where
  "kwargs_get None dflt = dflt"
| "kwargs_get (Some v) dflt = v"

text \<open>\<open>x or ""\<close> for an \<open>Optional[str]\<close>.\<close>

fun or_empty :: "string option \<Rightarrow> string" where
  "or_empty None = []"
| "or_empty (Some s) = s"

text \<open>
  Lines 65 to 79 of the constructor: the configuration it goes on to validate. \<open>from_env\<close>
  runs before any keyword argument is looked at.
\<close>

definition resolve_config :: "S3Config option \<Rightarrow> kwargs \<Rightarrow> environ \<Rightarrow> exn + S3Config" where
  "resolve_config config kw environ =
     (case config of
        Some c \<Rightarrow> Inr c
      | None \<Rightarrow>
          (case from_env environ of
             Inl e \<Rightarrow> Inl e
           | Inr env_config \<Rightarrow>
               Inr \<lparr>s3_bucket_name =
                      kwargs_get (kw_s3_bucket_name kw) (Some (or_empty (s3_bucket_name env_config))),
                    s3_directory =
                      kwargs_get (kw_s3_directory kw) (Some (or_empty (s3_directory env_config))),
                    aws_region = kwargs_get (kw_aws_region kw) (aws_region env_config),
                    aws_access_key_id =
                      kwargs_get (kw_aws_access_key_id kw) (aws_access_key_id env_config),
                    aws_secret_access_key =
                      kwargs_get (kw_aws_secret_access_key kw) (aws_secret_access_key env_config),
                    aws_session_token =
                      kwargs_get (kw_aws_session_token kw) (aws_session_token env_config),
                    aws_profile = kwargs_get (kw_aws_profile kw) (aws_profile env_config),
                    max_retries = kwargs_get (kw_max_retries kw) (max_retries env_config),
                    timeout = kwargs_get (kw_timeout kw) (timeout env_config)\<rparr>))"

text \<open>No keyword argument passed.\<close>

definition no_kwargs :: kwargs where
  "no_kwargs =
     \<lparr>kw_s3_bucket_name = None, kw_s3_directory = None, kw_aws_region = None,
      kw_aws_access_key_id = None, kw_aws_secret_access_key = None, kw_aws_session_token = None,
      kw_aws_profile = None, kw_max_retries = None, kw_timeout = None\<rparr>"

section \<open>Text of numbers\<close>

text \<open>\<open>str(n)\<close> for the result of \<open>len\<close>: the decimal digits of a natural number.\<close>

definition digit_char :: "nat \<Rightarrow> char" where
  "digit_char n = ''0123456789'' ! (n mod 10)"

fun str_nat :: "nat \<Rightarrow> string" where
  "str_nat n = (if n < 10 then [digit_char n] else str_nat (n div 10) @ [digit_char n])"

declare str_nat.simps [simp del]

text \<open>\<open>str(x)\<close> inside an f-string for an \<open>Optional[str]\<close> value.\<close>

fun str_opt :: "string option \<Rightarrow> string" where
  "str_opt None = ''None''"
| "str_opt (Some s) = s"

section \<open>The standard library's os.path\<close>

text \<open>
  \<open>os.path\<close> is \<open>posixpath\<close> or \<open>ntpath\<close>, by the host. Both are modelled after CPython 3.11,
  for \<open>str\<close> arguments and for the one call shape the connector uses,
  \<open>os.path.join(a, b)\<close> with two arguments.
\<close>

datatype os_path = PosixPath | NtPath

definition slash :: char where
  "slash = CHR ''/''"

definition backslash :: char where
  "backslash = CHR 0x5C"

definition colon :: char where
  "colon = CHR '':''"

text \<open>\<open>posixpath.basename\<close>: what follows the last slash.\<close>

definition posix_basename :: "string \<Rightarrow> string" where
  "posix_basename p = rev (takeWhile (\<lambda>c. c \<noteq> slash) (rev p))"

text \<open>
  \<open>posixpath.join(a, b)\<close>: an absolute \<open>b\<close> replaces \<open>a\<close>; otherwise \<open>b\<close> is appended, after a
  slash unless \<open>a\<close> is empty or ends with one.
\<close>

definition posix_join :: "string \<Rightarrow> string \<Rightarrow> string" where
  "posix_join a b =
     (if take 1 b = [slash] then b
      else if a = [] \<or> last a = slash then a @ b
      else a @ [slash] @ b)"

definition nt_sep :: "char \<Rightarrow> bool" where
  "nt_sep c = (c = backslash \<or> c = slash)"

text \<open>\<open>s.find(c, start)\<close>: the first index at or after \<open>start\<close> that holds \<open>c\<close>.\<close>

fun find_from :: "char \<Rightarrow> nat \<Rightarrow> string \<Rightarrow> nat option" where
  "find_from c start s =
     (case List.find (\<lambda>i. s ! i = c) [start..<length s] of None \<Rightarrow> None | Some i \<Rightarrow> Some i)"

text \<open>
  \<open>str.upper\<close> and \<open>str.lower\<close> on one character, as far as \<open>ntpath\<close> needs them. Upper case
  is compared with the UNC prefix only, and no other code point has \<open>U\<close>, \<open>N\<close> or \<open>C\<close>
  as its upper case. Lower case maps the Latin-1 capitals.
\<close>

definition upper_char :: "char \<Rightarrow> char" where
  "upper_char c =
     (let n = (of_char c :: nat) in if 97 \<le> n \<and> n \<le> 122 then char_of (n - 32) else c)"

definition lower_char :: "char \<Rightarrow> char" where
  "lower_char c =
     (let n = (of_char c :: nat)
      in if (65 \<le> n \<and> n \<le> 90) \<or> (192 \<le> n \<and> n \<le> 222 \<and> n \<noteq> 215)
         then char_of (n + 32) else c)"

definition unc_prefix :: string where
  "unc_prefix = [backslash, backslash, CHR ''?'', backslash, CHR ''U'', CHR ''N'', CHR ''C'', backslash]"

text \<open>\<open>ntpath.splitdrive\<close>: a UNC or device root, or a drive letter with its colon.\<close>

definition nt_splitdrive :: "string \<Rightarrow> string \<times> string" where
  "nt_splitdrive p =
     (if 2 \<le> length p then
        let normp = map (\<lambda>c. if c = slash then backslash else c) p in
        if take 2 normp = [backslash, backslash] then
          let start = (if map upper_char (take 8 normp) = unc_prefix then 8 else 2) in
          (case find_from backslash start normp of
             None \<Rightarrow> (p, [])
           | Some index \<Rightarrow>
               (case find_from backslash (index + 1) normp of
                  None \<Rightarrow> (p, [])
                | Some index2 \<Rightarrow> (take index2 p, drop index2 p)))
        else if take 1 (drop 1 normp) = [colon] then (take 2 p, drop 2 p)
        else ([], p)
      else ([], p))"

text \<open>\<open>ntpath.basename\<close>: what follows the last separator, after the drive is split off.\<close>

definition nt_basename :: "string \<Rightarrow> string" where
  "nt_basename p = rev (takeWhile (\<lambda>c. \<not> nt_sep c) (rev (snd (nt_splitdrive p))))"

text \<open>\<open>ntpath.join(path, p)\<close>.\<close>

definition nt_join :: "string \<Rightarrow> string \<Rightarrow> string" where
  "nt_join path p =
     (let (result_drive, result_path) = nt_splitdrive path;
          (p_drive, p_path) = nt_splitdrive p;
          (result_drive, result_path) =
            (if p_path \<noteq> [] \<and> nt_sep (hd p_path) then
               (if p_drive \<noteq> [] \<or> result_drive = [] then p_drive else result_drive, p_path)
             else if p_drive \<noteq> [] \<and> p_drive \<noteq> result_drive \<and>
                     map lower_char p_drive \<noteq> map lower_char result_drive then
               (p_drive, p_path)
             else
               (if p_drive \<noteq> [] \<and> p_drive \<noteq> result_drive then p_drive else result_drive,
                (if result_path \<noteq> [] \<and> \<not> nt_sep (last result_path)
                 then result_path @ [backslash] else result_path) @ p_path))
      in if result_path \<noteq> [] \<and> \<not> nt_sep (hd result_path) \<and>
            result_drive \<noteq> [] \<and> last result_drive \<noteq> colon
         then result_drive @ [backslash] @ result_path
         else result_drive @ result_path)"

fun basename :: "os_path \<Rightarrow> string \<Rightarrow> string" where
  "basename PosixPath p = posix_basename p"
| "basename NtPath p = nt_basename p"

fun path_join :: "os_path \<Rightarrow> string \<Rightarrow> string \<Rightarrow> string" where
  "path_join PosixPath a b = posix_join a b"
| "path_join NtPath a b = nt_join a b"

text \<open>\<open>s.replace\<close> of every backslash by a forward slash (connector.py, line 169).\<close>

definition replace_backslash :: "string \<Rightarrow> string" where
  "replace_backslash s = map (\<lambda>c. if c = backslash then slash else c) s"

text \<open>\<open>s.lstrip(chars)\<close>: the leading characters that occur in \<open>chars\<close> are removed.\<close>

definition lstrip :: "string \<Rightarrow> string \<Rightarrow> string" where
  "lstrip chars s = dropWhile (\<lambda>c. c \<in> set chars) s"

section \<open>The connector's collaborators\<close>

text \<open>
  The calls the connector makes outside itself: \<open>os.path.isfile\<close> and the three operations of
  the boto3 client. A trace is the list of calls made so far, oldest first. \<open>Bucket\<close> is
  passed as the configuration holds it.
\<close>

datatype call =
    IsFile string
  | UploadFile string "string option" string
  | Paginate "string option" string
  | DeleteObjects "string option" "string list"

text \<open>An entry of the \<open>Errors\<close> list of a \<open>delete_objects\<close> response: \<open>Key\<close>, \<open>Code\<close>, \<open>Message\<close>.\<close>

datatype s3_error_entry = S3ErrorEntry string string string

text \<open>
  The response of \<open>delete_objects\<close>: the keys of its \<open>Deleted\<close> entries and its \<open>Errors\<close>
  entries, each \<open>None\<close> when the response has no such field.
\<close>

record delete_response =
  Deleted :: "string list option"
  Errors :: "s3_error_entry list option"

text \<open>
  The world around a connector. Every answer may depend on the calls made before it, so a
  client with state of its own is covered. \<open>upload_file\<close> answers \<open>None\<close> when it returns and
  \<open>Some e\<close> when it raises \<open>e\<close>; \<open>paginate\<close> answers the pages of the listing, each the keys of
  its \<open>Contents\<close> (\<open>None\<close> for a page without that field), or the exception met while paging.
  Only exceptions below \<open>Exception\<close> are considered.
\<close>

record world =
  os_path_flavour :: os_path
  isfile :: "call list \<Rightarrow> string \<Rightarrow> bool"
  upload_file :: "call list \<Rightarrow> string \<Rightarrow> string option \<Rightarrow> string \<Rightarrow> exn option"
  paginate :: "call list \<Rightarrow> string option \<Rightarrow> string \<Rightarrow> exn + string list option list"
  delete_objects :: "call list \<Rightarrow> string option \<Rightarrow> string list \<Rightarrow> exn + delete_response"

section \<open>Result records\<close>

text \<open>
  The value under \<open>"error"\<close>: \<open>None\<close>, a string, the list of \<open>{"file": f, "error": v}\<close> entries
  of a parallel upload, or the service's \<open>Errors\<close> list of a deletion.
\<close>

datatype error_value =
    ENone
  | EStr string
  | EFiles "(string \<times> error_value) list"
  | EService "s3_error_entry list"

text \<open>The dict \<open>{"success": ..., "message": ..., "error": ...}\<close> that the operations return.\<close>

record result =
  success :: bool
  message :: string
  error :: error_value

type_synonym 'a outcome = "(exn + 'a) \<times> call list"

section \<open>Uploading (connector.py, upload_files)\<close>

text \<open>The storage key of lines 168 and 169.\<close>

definition s3_key :: "os_path \<Rightarrow> string \<Rightarrow> string \<Rightarrow> string" where
  "s3_key fl directory local_path =
     replace_backslash (path_join fl directory (basename fl local_path))"

text \<open>
  Lines 164 to 183, the branch for a single path. \<open>os.path.join\<close> with \<open>None\<close> for the
  directory raises \<open>TypeError\<close>, outside the \<open>try\<close>.
\<close>

definition upload_single :: "S3Config \<Rightarrow> world \<Rightarrow> string \<Rightarrow> call list \<Rightarrow> result outcome" where
  "upload_single cfg w local_path tr =
     (let tr1 = tr @ [IsFile local_path] in
      if \<not> isfile w tr local_path
      then (Inl (UploadError (''File not found: '' @ local_path)), tr1)
      else
        (case s3_directory cfg of
           None \<Rightarrow>
             (Inl (TypeError ''expected str, bytes or os.PathLike object, not NoneType''), tr1)
         | Some directory \<Rightarrow>
             (let s3_path = s3_key (os_path_flavour w) directory local_path;
                  tr2 = tr1 @ [UploadFile local_path (s3_bucket_name cfg) s3_path]
              in case upload_file w tr1 local_path (s3_bucket_name cfg) s3_path of
                   None \<Rightarrow>
                     (Inr \<lparr>success = True,
                           message = ''Uploaded to s3://'' @ str_opt (s3_bucket_name cfg) @ ''/'' @ s3_path,
                           error = ENone\<rparr>, tr2)
                 | Some (ClientError m) \<Rightarrow>
                     (Inl (UploadError (''Failed to upload '' @ local_path @ '' to S3: '' @ m)), tr2)
                 | Some e \<Rightarrow>
                     (Inl (UploadError (''Unexpected error during upload: '' @ exn_str e)), tr2))))"

text \<open>
  Lines 160 and 161, the loop of the sequential mode: \<open>Some e\<close> when an item raised \<open>e\<close>, which
  ends the loop.
\<close>

fun upload_each :: "S3Config \<Rightarrow> world \<Rightarrow> string list \<Rightarrow> call list \<Rightarrow> exn option \<times> call list" where
  "upload_each cfg w [] tr = (None, tr)"
| "upload_each cfg w (file # files) tr =
     (case upload_single cfg w file tr of
        (Inl e, tr1) \<Rightarrow> (Some e, tr1)
      | (Inr r, tr1) \<Rightarrow> upload_each cfg w files tr1)"

definition upload_sequential :: "S3Config \<Rightarrow> world \<Rightarrow> string list \<Rightarrow> call list \<Rightarrow> result outcome" where
  "upload_sequential cfg w local_path tr =
     (case upload_each cfg w local_path tr of
        (Some e, tr1) \<Rightarrow> (Inl e, tr1)
      | (None, tr1) \<Rightarrow>
          (Inr \<lparr>success = True,
                message = ''Uploaded '' @ str_nat (length local_path) @ '' files.'',
                error = ENone\<rparr>, tr1))"

text \<open>
  The thread pool of lines 142 to 154. Task \<open>i\<close> is \<open>self.upload_files(local_path[i], False)\<close>.
  The pool is abstracted to a schedule: \<open>run_order\<close> is the order in which the tasks take
  effect on the world, each task as one step, and \<open>done_order\<close> is the order in which
  \<open>as_completed\<close> hands the futures back. For a list of \<open>n\<close> files both are permutations
  of the task numbers \<open>0\<close> to \<open>n - 1\<close>; the functions below are meant for such schedules only.
\<close>

record schedule =
  run_order :: "nat list"
  done_order :: "nat list"

fun run_tasks ::
  "S3Config \<Rightarrow> world \<Rightarrow> string list \<Rightarrow> nat list \<Rightarrow> call list \<Rightarrow>
     (nat \<times> (exn + result)) list \<times> call list" where
  "run_tasks cfg w files [] tr = ([], tr)"
| "run_tasks cfg w files (i # rest) tr =
     (case upload_single cfg w (files ! i) tr of
        (r, tr1) \<Rightarrow>
          (case run_tasks cfg w files rest tr1 of
             (rs, tr2) \<Rightarrow> ((i, r) # rs, tr2)))"

text \<open>
  The body of the \<open>as_completed\<close> loop, lines 145 to 154, on the triple of \<open>results\<close>, \<open>errors\<close>
  and \<open>files\<close>. A future that never ran is never handed back.
\<close>

type_synonym collected = "result list \<times> (string \<times> error_value) list \<times> string list"

fun collect ::
  "string list \<Rightarrow> (nat \<rightharpoonup> exn + result) \<Rightarrow> nat list \<Rightarrow> collected \<Rightarrow> collected" where
  "collect local_path outs [] acc = acc"
| "collect local_path outs (i # rest) (results, errors, files) =
     (case outs i of
        None \<Rightarrow> collect local_path outs rest (results, errors, files)
      | Some (Inr r) \<Rightarrow>
          collect local_path outs rest
            (results @ [r],
             if \<not> success r then errors @ [(local_path ! i, error r)] else errors,
             files @ [local_path ! i])
      | Some (Inl exc) \<Rightarrow>
          collect local_path outs rest
            (results, errors @ [(local_path ! i, EStr (exn_str exc))], files @ [local_path ! i]))"

definition upload_parallel ::
  "S3Config \<Rightarrow> world \<Rightarrow> schedule \<Rightarrow> string list \<Rightarrow> call list \<Rightarrow> result outcome" where
  "upload_parallel cfg w sch local_path tr =
     (case run_tasks cfg w local_path (run_order sch) tr of
        (outs, tr1) \<Rightarrow>
          (case collect local_path (map_of outs) (done_order sch) ([], [], []) of
             (results, errors, files) \<Rightarrow>
               if errors \<noteq> []
               then (Inr \<lparr>success = False, message = ''Some files failed to upload.'',
                          error = EFiles errors\<rparr>, tr1)
               else (Inr \<lparr>success = True,
                          message = ''Uploaded '' @ str_nat (length local_path) @ '' files in parallel.'',
                          error = ENone\<rparr>, tr1)))"

text \<open>
  The argument \<open>local_path: str | list[str]\<close>, and \<open>upload_files\<close> itself; \<open>parallel_flag\<close> is
  the parameter \<open>parallel\<close>. An item of a list is a \<open>str\<close>, so the call made for it takes the
  branch for a single path.
\<close>

datatype path_arg = Path string | Paths "string list"

fun upload_files ::
  "S3Config \<Rightarrow> world \<Rightarrow> schedule \<Rightarrow> path_arg \<Rightarrow> bool \<Rightarrow> call list \<Rightarrow> result outcome" where
  "upload_files cfg w sch (Paths files) parallel_flag tr =
     (if parallel_flag then upload_parallel cfg w sch files tr
      else upload_sequential cfg w files tr)"
| "upload_files cfg w sch (Path local_path) parallel_flag tr = upload_single cfg w local_path tr"

section \<open>Listing (connector.py, list_files)\<close>

definition list_files ::
  "S3Config \<Rightarrow> world \<Rightarrow> string option \<Rightarrow> call list \<Rightarrow> string list outcome" where
  "list_files cfg w contains tr =
     (case s3_directory cfg of
        None \<Rightarrow> (Inl (AttributeError ''NoneType object has no attribute lstrip''), tr)
      | Some directory \<Rightarrow>
          (let s3_prefix = lstrip ''/'' directory;
               tr1 = tr @ [Paginate (s3_bucket_name cfg) s3_prefix]
           in case paginate w tr (s3_bucket_name cfg) s3_prefix of
                Inr pages \<Rightarrow>
                  (Inr (filter (\<lambda>key. case contains of None \<Rightarrow> True | Some c \<Rightarrow> sublist c key)
                         (concat (map (\<lambda>page. case page of None \<Rightarrow> [] | Some keys \<Rightarrow> keys) pages))),
                   tr1)
              | Inl (ClientError m) \<Rightarrow> (Inl (S3Error (''Failed to list files in S3: '' @ m)), tr1)
              | Inl e \<Rightarrow>
                  (Inl (S3Error (''Unexpected error during list_files: '' @ exn_str e)), tr1)))"

section \<open>Deleting (connector.py, delete_files)\<close>

text \<open>The argument \<open>keys: str | list[str]\<close>, and the batch of lines 236 and 237.\<close>

datatype keys_arg = Key string | Keys "string list"

fun key_batch :: "keys_arg \<Rightarrow> string list" where
  "key_batch (Key k) = [k]"
| "key_batch (Keys ks) = ks"

text \<open>\<open>response.get(field, [])\<close>.\<close>

fun get_or_empty :: "'a list option \<Rightarrow> 'a list" where
  "get_or_empty None = []"
| "get_or_empty (Some xs) = xs"

definition delete_files :: "S3Config \<Rightarrow> world \<Rightarrow> keys_arg \<Rightarrow> call list \<Rightarrow> result outcome" where
  "delete_files cfg w arg tr =
     (let keys = key_batch arg in
      if keys = []
      then (Inr \<lparr>success = False, message = ''No keys provided for deletion.'', error = ENone\<rparr>, tr)
      else
        (let tr1 = tr @ [DeleteObjects (s3_bucket_name cfg) keys]
         in case delete_objects w tr (s3_bucket_name cfg) keys of
              Inr response \<Rightarrow>
                (let deleted = get_or_empty (Deleted response);
                     errors = get_or_empty (Errors response)
                 in if errors \<noteq> []
                    then (Inr \<lparr>success = False, message = ''Some files could not be deleted.'',
                               error = EService errors\<rparr>, tr1)
                    else (Inr \<lparr>success = True,
                               message = ''Deleted '' @ str_nat (length deleted) @ '' files.'',
                               error = ENone\<rparr>, tr1))
            | Inl (ClientError m) \<Rightarrow> (Inl (S3Error (''Failed to delete files in S3: '' @ m)), tr1)
            | Inl e \<Rightarrow>
                (Inl (S3Error (''Unexpected error during delete_files: '' @ exn_str e)), tr1)))"

text \<open>The paths handed to \<open>os.path.isfile\<close> in a trace, in order: the uploads attempted.\<close>

fun attempted :: "call list \<Rightarrow> string list" where
  "attempted [] = []"
| "attempted (IsFile p # tr) = p # attempted tr"
| "attempted (c # tr) = attempted tr"

text \<open>The calls of a trace that went to the storage client.\<close>

fun client_calls :: "call list \<Rightarrow> call list" where
  "client_calls [] = []"
| "client_calls (IsFile p # tr) = client_calls tr"
| "client_calls (c # tr) = c # client_calls tr"

text \<open>
  The trace after the single-path branch has run on each path of a list, one after the
  other, whatever each run did.
\<close>

definition after_items :: "S3Config \<Rightarrow> world \<Rightarrow> string list \<Rightarrow> call list \<Rightarrow> call list" where
  "after_items cfg w paths tr = foldl (\<lambda>t p. snd (upload_single cfg w p t)) tr paths"

text \<open>
  What item \<open>k\<close> of a list does when the single-path branch runs on the items in the order
  of the list: the outcome of its own run, which starts where the runs before it stopped.
\<close>

definition item_outcome :: "S3Config \<Rightarrow> world \<Rightarrow> string list \<Rightarrow> call list \<Rightarrow> nat \<Rightarrow> exn + result" where
  "item_outcome cfg w files tr k =
     fst (upload_single cfg w (files ! k) (after_items cfg w (take k files) tr))"

text \<open>
  What the parallel mode records for a task that did not succeed: the text of the exception
  it raised, or the \<open>"error"\<close> of a result whose \<open>"success"\<close> is false.
\<close>

fun failure_of :: "exn + result \<Rightarrow> error_value option" where
  "failure_of (Inl exc) = Some (EStr (exn_str exc))"
| "failure_of (Inr r) = (if success r then None else Some (error r))"

text \<open>
  What the task at position \<open>pos\<close> of a run order does: the outcome of the single-path branch
  on its file, run after the tasks at the positions before it.
\<close>

definition task_outcome ::
  "S3Config \<Rightarrow> world \<Rightarrow> string list \<Rightarrow> nat list \<Rightarrow> call list \<Rightarrow> nat \<Rightarrow> exn + result" where
  "task_outcome cfg w files order tr pos =
     fst (upload_single cfg w (files ! (order ! pos))
            (after_items cfg w (map ((!) files) (take pos order)) tr))"

text \<open>The entry of the error list for item \<open>i\<close>, if its outcome is a failure.\<close>

definition error_entry :: "string list \<Rightarrow> (nat \<Rightarrow> exn + result) \<Rightarrow> nat \<Rightarrow> (string \<times> error_value) list" where
  "error_entry files outs i =
     (case failure_of (outs i) of None \<Rightarrow> [] | Some d \<Rightarrow> [(files ! i, d)])"

text \<open>An \<open>"error"\<close> value that is \<open>None\<close> or empty.\<close>

fun error_absent :: "error_value \<Rightarrow> bool" where
  "error_absent ENone = True"
| "error_absent (EStr m) = (m = [])"
| "error_absent (EFiles es) = (es = [])"
| "error_absent (EService es) = (es = [])"

section \<open>Fixtures\<close>

text \<open>The configuration of the test suite's \<open>mock_config\<close> (tests/test_connector.py).\<close>

definition mock_config :: S3Config where
  "mock_config =
     \<lparr>s3_bucket_name = Some ''test-bucket'', s3_directory = Some ''test-dir/'',
      aws_region = Some ''us-east-1'', aws_access_key_id = None, aws_secret_access_key = None,
      aws_session_token = None, aws_profile = None, max_retries = 1, timeout = 1\<rparr>"

text \<open>
  A stand-in world, as the test suite's mocks are: the files of \<open>existing\<close> exist, an upload
  of a file of \<open>failing\<close> raises \<open>ClientError\<close>, a listing has no pages and a deletion answers
  \<open>response\<close>.
\<close>

definition mock_world :: "os_path \<Rightarrow> string list \<Rightarrow> string list \<Rightarrow> delete_response \<Rightarrow> world" where
  "mock_world fl existing failing response =
     \<lparr>os_path_flavour = fl,
      isfile = (\<lambda>tr p. p \<in> set existing),
      upload_file = (\<lambda>tr p b k. if p \<in> set failing then Some (ClientError ''transport'') else None),
      paginate = (\<lambda>tr b pre. Inr []),
      delete_objects = (\<lambda>tr b ks. Inr response)\<rparr>"

definition in_order :: "nat \<Rightarrow> schedule" where
  "in_order n = \<lparr>run_order = [0..<n], done_order = [0..<n]\<rparr>"

section \<open>Properties of validation\<close>

lemma dropWhile_eq_Nil_list_all: "dropWhile P xs = [] \<longleftrightarrow> list_all P xs"
  by (induction xs) auto

lemma strip_eq_Nil: "strip s = [] \<longleftrightarrow> list_all is_space s"
proof -
  have "strip s = [] \<longleftrightarrow> dropWhile is_space (rev (dropWhile is_space s)) = []"
    by (simp add: strip_def rstrip_ws_def lstrip_ws_def)
  also have "\<dots> \<longleftrightarrow> list_all is_space (rev (dropWhile is_space s))"
    by (rule dropWhile_eq_Nil_list_all)
  also have "\<dots> \<longleftrightarrow> list_all is_space s"
  proof (induction s)
    case Nil
    show ?case by simp
  next
    case (Cons a s)
    then show ?case by (auto simp: list_all_iff)
  qed
  finally show ?thesis .
qed

lemma region_check: "region_blank r \<longleftrightarrow> (\<exists>s. r = Some s \<and> isspace s)"
  by (cases r) (auto simp: strip_eq_Nil isspace_def)

text \<open>
  C4. \<open>validate\<close> returns normally exactly when the bucket name and the directory are
  non-empty strings, \<open>max_retries\<close> is at least 0, \<open>timeout\<close> is above 0 and the region, when
  given, is not whitespace-only (in the sense of \<open>str.isspace\<close>: one character or more, all
  of them whitespace); in every other case it raises \<open>ValueError\<close>, the package's
  configuration-validation error.
\<close>

theorem validate_succeeds_iff:
  "(validate c = Inr () \<longleftrightarrow>
      (\<exists>b. s3_bucket_name c = Some b \<and> b \<noteq> []) \<and>
      (\<exists>d. s3_directory c = Some d \<and> d \<noteq> []) \<and>
      0 \<le> max_retries c \<and> 0 < timeout c \<and>
      (case aws_region c of None \<Rightarrow> True | Some r \<Rightarrow> \<not> isspace r)) \<and>
   (validate c = Inr () \<or> (\<exists>m. validate c = Inl (ValueError m)))"
proof -
  have b: "truthy (s3_bucket_name c) \<longleftrightarrow> (\<exists>b. s3_bucket_name c = Some b \<and> b \<noteq> [])"
    by (cases "s3_bucket_name c") auto
  have d: "truthy (s3_directory c) \<longleftrightarrow> (\<exists>d. s3_directory c = Some d \<and> d \<noteq> [])"
    by (cases "s3_directory c") auto
  have r: "\<not> region_blank (aws_region c) \<longleftrightarrow>
      (case aws_region c of None \<Rightarrow> True | Some r \<Rightarrow> \<not> isspace r)"
    unfolding region_check by (cases "aws_region c") auto
  have "validate c = Inr () \<longleftrightarrow>
      truthy (s3_bucket_name c) \<and> truthy (s3_directory c) \<and> 0 \<le> max_retries c \<and>
      0 < timeout c \<and> \<not> region_blank (aws_region c)"
    unfolding validate_def by auto
  moreover have "validate c = Inr () \<or> (\<exists>m. validate c = Inl (ValueError m))"
    unfolding validate_def by auto
  ultimately show ?thesis
    unfolding b d r by blast
qed

section \<open>Properties of the traces\<close>

lemma client_calls_append: "client_calls (xs @ ys) = client_calls xs @ client_calls ys"
  by (induction xs rule: client_calls.induct) auto

lemma attempted_append: "attempted (xs @ ys) = attempted xs @ attempted ys"
  by (induction xs rule: attempted.induct) auto

lemma validate_mock_config: "validate mock_config = Inr ()"
  by (simp add: validate_def mock_config_def strip_def lstrip_ws_def rstrip_ws_def is_space_def
      whitespace_chars_def)

lemma validate_directory: "validate cfg = Inr () \<Longrightarrow> \<exists>d. s3_directory cfg = Some d"
  by (cases "s3_directory cfg") (auto simp: validate_def split: if_splits)

section \<open>A single path\<close>

text \<open>
  C9. When the path is not an existing file, \<open>upload_files\<close> on a single path raises
  \<open>UploadError\<close> ("File not found"), and the only call it has made is the one to
  \<open>os.path.isfile\<close>: the trace holds no call to the storage client that was not there before.
\<close>

theorem missing_file_upload_error:
  "\<not> isfile w tr p \<Longrightarrow>
   upload_files cfg w sch (Path p) parallel_flag tr =
     (Inl (UploadError (''File not found: '' @ p)), tr @ [IsFile p]) \<and>
   client_calls (tr @ [IsFile p]) = client_calls tr"
  by (simp add: upload_single_def client_calls_append)

theorem missing_file_upload_error_witness:
  "\<not> isfile (mock_world PosixPath [] [] \<lparr>Deleted = None, Errors = None\<rparr>) [] ''file.txt'' \<and>
   upload_files mock_config (mock_world PosixPath [] [] \<lparr>Deleted = None, Errors = None\<rparr>)
       (in_order 0) (Path ''file.txt'') False [] =
     (Inl (UploadError ''File not found: file.txt''), [IsFile ''file.txt'']) \<and>
   client_calls [IsFile ''file.txt''] = []"
  using missing_file_upload_error [of "mock_world PosixPath [] [] \<lparr>Deleted = None, Errors = None\<rparr>"
      "[]" "''file.txt''" mock_config "in_order 0" False]
  by (simp add: mock_world_def)

text \<open>
  C10. On a connector whose configuration passed \<open>validate\<close> (the constructor runs it), an
  upload of a single path either raises \<open>UploadError\<close> or returns a record with \<open>success\<close>
  true and \<open>error\<close> \<open>None\<close>: it never returns a record of failure.
\<close>

theorem single_upload_never_returns_failure:
  "validate cfg = Inr () \<Longrightarrow>
   (\<exists>m tr'. upload_files cfg w sch (Path p) parallel_flag tr = (Inl (UploadError m), tr')) \<or>
   (\<exists>r tr'. upload_files cfg w sch (Path p) parallel_flag tr = (Inr r, tr') \<and>
        success r \<and> error r = ENone)"
proof -
  assume "validate cfg = Inr ()"
  then obtain d where d: "s3_directory cfg = Some d"
    using validate_directory by blast
  show ?thesis
    by (simp add: upload_single_def d Let_def split: option.split exn.split)
qed

theorem single_upload_never_returns_failure_witness:
  "validate mock_config = Inr () \<and>
   ((\<exists>m tr'. upload_files mock_config
         (mock_world PosixPath [''file.txt''] [] \<lparr>Deleted = None, Errors = None\<rparr>)
         (in_order 0) (Path ''file.txt'') False [] = (Inl (UploadError m), tr')) \<or>
    (\<exists>r tr'. upload_files mock_config
         (mock_world PosixPath [''file.txt''] [] \<lparr>Deleted = None, Errors = None\<rparr>)
         (in_order 0) (Path ''file.txt'') False [] = (Inr r, tr') \<and> success r \<and> error r = ENone))"
  using single_upload_never_returns_failure [OF validate_mock_config] validate_mock_config
  by blast

section \<open>The storage key\<close>

lemma s3_key_no_backslash: "backslash \<notin> set (s3_key fl d p)"
  by (auto simp: s3_key_def replace_backslash_def backslash_def slash_def)

lemma s3_key_example: "s3_key fl ''dir/'' ''a/b/file.txt'' = ''dir/file.txt''"
  by (cases fl)
    (simp_all add: s3_key_def replace_backslash_def posix_basename_def posix_join_def
      nt_basename_def nt_join_def nt_splitdrive_def nt_sep_def slash_def backslash_def colon_def)

text \<open>
  C6. Under either \<open>os.path\<close>, the key of the local path \<open>a/b/file.txt\<close> under the directory
  \<open>dir/\<close> is \<open>dir/file.txt\<close>, and that is the key the upload hands to the storage client; no
  key holds a backslash.
\<close>

theorem upload_key_of_nested_path:
  "s3_key fl ''dir/'' ''a/b/file.txt'' = ''dir/file.txt'' \<and>
   backslash \<notin> set (s3_key fl d p) \<and>
   (s3_directory cfg = Some ''dir/'' \<and> isfile w tr ''a/b/file.txt'' \<longrightarrow>
      snd (upload_files cfg w sch (Path ''a/b/file.txt'') parallel_flag tr) =
        tr @ [IsFile ''a/b/file.txt'',
              UploadFile ''a/b/file.txt'' (s3_bucket_name cfg) ''dir/file.txt''])"
proof -
  have "snd (upload_files cfg w sch (Path ''a/b/file.txt'') parallel_flag tr) =
        tr @ [IsFile ''a/b/file.txt'',
              UploadFile ''a/b/file.txt'' (s3_bucket_name cfg) ''dir/file.txt'']"
    if "s3_directory cfg = Some ''dir/''" "isfile w tr ''a/b/file.txt''"
    using that
    by (simp add: upload_single_def Let_def s3_key_example split: option.split exn.split)
  with s3_key_example s3_key_no_backslash show ?thesis by blast
qed

theorem upload_key_of_nested_path_witness:
  "s3_directory (mock_config\<lparr>s3_directory := Some ''dir/''\<rparr>) = Some ''dir/'' \<and>
   isfile (mock_world NtPath [''a/b/file.txt''] [] \<lparr>Deleted = None, Errors = None\<rparr>) []
     ''a/b/file.txt'' \<and>
   snd (upload_files (mock_config\<lparr>s3_directory := Some ''dir/''\<rparr>)
          (mock_world NtPath [''a/b/file.txt''] [] \<lparr>Deleted = None, Errors = None\<rparr>)
          (in_order 0) (Path ''a/b/file.txt'') False []) =
     [IsFile ''a/b/file.txt'', UploadFile ''a/b/file.txt'' (Some ''test-bucket'') ''dir/file.txt'']"
  using upload_key_of_nested_path [of NtPath "[]" "[]" "mock_config\<lparr>s3_directory := Some ''dir/''\<rparr>"
      "mock_world NtPath [''a/b/file.txt''] [] \<lparr>Deleted = None, Errors = None\<rparr>" "[]"
      "in_order 0" False]
  by (simp add: mock_world_def mock_config_def)

section \<open>The listing prefix\<close>

lemma lstrip_slash_shape:
  "\<exists>k. d = replicate k CHR ''/'' @ lstrip ''/'' d \<and> take 1 (lstrip ''/'' d) \<noteq> ''/''"
proof (induction d)
  case Nil
  show ?case by (simp add: lstrip_def)
next
  case (Cons c d)
  show ?case
  proof (cases "c = CHR ''/''")
    case True
    from Cons obtain k where k: "d = replicate k CHR ''/'' @ lstrip ''/'' d"
      and t: "take 1 (lstrip ''/'' d) \<noteq> ''/''" by blast
    have l: "lstrip ''/'' (c # d) = lstrip ''/'' d"
      using True by (simp add: lstrip_def)
    have "c # d = replicate (Suc k) CHR ''/'' @ lstrip ''/'' (c # d)"
      using k True l by simp
    with t l show ?thesis by metis
  next
    case False
    then have "lstrip ''/'' (c # d) = c # d" by (simp add: lstrip_def)
    with False have "c # d = replicate 0 CHR ''/'' @ lstrip ''/'' (c # d) \<and>
        take 1 (lstrip ''/'' (c # d)) \<noteq> ''/''" by simp
    then show ?thesis by blast
  qed
qed

text \<open>
  C7, as the code has it. The prefix that \<open>list_files\<close> hands to the paginator is the
  configured directory without its leading slashes, all of them: the directory is some
  number of slashes followed by the prefix, and the prefix does not start with a slash.
\<close>

theorem list_files_prefix:
  "s3_directory cfg = Some d \<Longrightarrow>
   \<exists>k p. d = replicate k CHR ''/'' @ p \<and> take 1 p \<noteq> ''/'' \<and>
     snd (list_files cfg w contains tr) = tr @ [Paginate (s3_bucket_name cfg) p]"
proof -
  assume d: "s3_directory cfg = Some d"
  have "snd (list_files cfg w contains tr) = tr @ [Paginate (s3_bucket_name cfg) (lstrip ''/'' d)]"
    by (simp add: list_files_def d Let_def split: sum.split exn.split)
  with lstrip_slash_shape [of d] show ?thesis by blast
qed

theorem list_files_prefix_witness:
  "s3_directory (mock_config\<lparr>s3_directory := Some ''//a''\<rparr>) = Some ''//a'' \<and>
   (\<exists>k p. ''//a'' = replicate k CHR ''/'' @ p \<and> take 1 p \<noteq> ''/'' \<and>
     snd (list_files (mock_config\<lparr>s3_directory := Some ''//a''\<rparr>)
            (mock_world PosixPath [] [] \<lparr>Deleted = None, Errors = None\<rparr>) None []) =
       [] @ [Paginate (s3_bucket_name (mock_config\<lparr>s3_directory := Some ''//a''\<rparr>)) p])"
  using list_files_prefix [of "mock_config\<lparr>s3_directory := Some ''//a''\<rparr>" "''//a''"
      "mock_world PosixPath [] [] \<lparr>Deleted = None, Errors = None\<rparr>" None "[]"]
  by simp

text \<open>
  The claim C7 as stated fails: for the directory \<open>//a\<close> the prefix is \<open>a\<close>, not \<open>/a\<close>.
\<close>

theorem list_files_double_slash:
  "snd (list_files (mock_config\<lparr>s3_directory := Some ''//a''\<rparr>)
          (mock_world PosixPath [] [] \<lparr>Deleted = None, Errors = None\<rparr>) None []) =
     [Paginate (Some ''test-bucket'') ''a''] \<and>
   snd (list_files (mock_config\<lparr>s3_directory := Some ''//a''\<rparr>)
          (mock_world PosixPath [] [] \<lparr>Deleted = None, Errors = None\<rparr>) None []) \<noteq>
     [Paginate (Some ''test-bucket'') ''/a'']"
  by (simp add: list_files_def mock_config_def mock_world_def lstrip_def)

section \<open>Deleting\<close>

lemma str_nat_1: "str_nat (Suc 0) = ''1''"
  by (simp add: str_nat.simps digit_char_def)

lemma sublist_middle: "sublist m (a @ m @ b)"
  by (auto simp: sublist_def)

text \<open>
  C8, as the code has it. An empty batch returns the record of failure with \<open>error\<close> \<open>None\<close>
  and leaves the trace as it was. A batch that is not empty makes one \<open>delete_objects\<close> call
  with the whole batch; when it answers with \<open>Errors\<close> the result is the record of failure
  that carries them, and otherwise a record of success whose message holds the number of
  entries of the response's \<open>Deleted\<close> list, so it holds \<open>1\<close> when that list has one entry.
\<close>

theorem delete_files_outcomes:
  "(key_batch arg = [] \<longrightarrow>
      delete_files cfg w arg tr =
        (Inr \<lparr>success = False, message = ''No keys provided for deletion.'', error = ENone\<rparr>, tr)) \<and>
   (key_batch arg \<noteq> [] \<longrightarrow>
      snd (delete_files cfg w arg tr) = tr @ [DeleteObjects (s3_bucket_name cfg) (key_batch arg)] \<and>
      (\<forall>response. delete_objects w tr (s3_bucket_name cfg) (key_batch arg) = Inr response \<longrightarrow>
         (get_or_empty (Errors response) \<noteq> [] \<longrightarrow>
            fst (delete_files cfg w arg tr) =
              Inr \<lparr>success = False, message = ''Some files could not be deleted.'',
                   error = EService (get_or_empty (Errors response))\<rparr>) \<and>
         (get_or_empty (Errors response) = [] \<longrightarrow>
            (\<exists>msg. fst (delete_files cfg w arg tr) =
                Inr \<lparr>success = True, message = msg, error = ENone\<rparr> \<and>
              sublist (str_nat (length (get_or_empty (Deleted response)))) msg \<and>
              (length (get_or_empty (Deleted response)) = 1 \<longrightarrow> sublist ''1'' msg)))))"
proof -
  have empty: "key_batch arg = [] \<longrightarrow>
      delete_files cfg w arg tr =
        (Inr \<lparr>success = False, message = ''No keys provided for deletion.'', error = ENone\<rparr>, tr)"
    by (simp add: delete_files_def)
  have call: "key_batch arg \<noteq> [] \<longrightarrow>
      snd (delete_files cfg w arg tr) = tr @ [DeleteObjects (s3_bucket_name cfg) (key_batch arg)]"
    by (simp add: delete_files_def Let_def split: sum.split exn.split)
  have failed: "fst (delete_files cfg w arg tr) =
        Inr \<lparr>success = False, message = ''Some files could not be deleted.'',
             error = EService (get_or_empty (Errors response))\<rparr>"
    if "key_batch arg \<noteq> []" "delete_objects w tr (s3_bucket_name cfg) (key_batch arg) = Inr response"
      "get_or_empty (Errors response) \<noteq> []" for response
    using that by (simp add: delete_files_def Let_def)
  have ok: "\<exists>msg. fst (delete_files cfg w arg tr) =
          Inr \<lparr>success = True, message = msg, error = ENone\<rparr> \<and>
        sublist (str_nat (length (get_or_empty (Deleted response)))) msg \<and>
        (length (get_or_empty (Deleted response)) = 1 \<longrightarrow> sublist ''1'' msg)"
    if "key_batch arg \<noteq> []" "delete_objects w tr (s3_bucket_name cfg) (key_batch arg) = Inr response"
      "get_or_empty (Errors response) = []" for response
  proof -
    let ?n = "str_nat (length (get_or_empty (Deleted response)))"
    have "fst (delete_files cfg w arg tr) =
        Inr \<lparr>success = True, message = ''Deleted '' @ ?n @ '' files.'', error = ENone\<rparr>"
      using that by (simp add: delete_files_def Let_def)
    moreover have "sublist ?n (''Deleted '' @ ?n @ '' files.'')"
      by (rule sublist_middle)
    moreover have "length (get_or_empty (Deleted response)) = 1 \<longrightarrow>
        sublist ''1'' (''Deleted '' @ ?n @ '' files.'')"
      using sublist_middle [of "''1''" "''Deleted ''" "'' files.''"] by (simp add: str_nat_1)
    ultimately show ?thesis by blast
  qed
  from empty call failed ok show ?thesis by blast
qed

theorem delete_files_outcomes_witness:
  "key_batch (Keys [''test-dir/file1.txt'']) \<noteq> [] \<and>
   delete_objects (mock_world PosixPath [] [] \<lparr>Deleted = Some [''test-dir/file1.txt''], Errors = Some []\<rparr>)
     [] (s3_bucket_name mock_config) (key_batch (Keys [''test-dir/file1.txt''])) =
     Inr \<lparr>Deleted = Some [''test-dir/file1.txt''], Errors = Some []\<rparr> \<and>
   get_or_empty (Errors \<lparr>Deleted = Some [''test-dir/file1.txt''], Errors = Some []\<rparr>) = [] \<and>
   length (get_or_empty (Deleted \<lparr>Deleted = Some [''test-dir/file1.txt''], Errors = Some []\<rparr>)) = 1 \<and>
   snd (delete_files mock_config
          (mock_world PosixPath [] [] \<lparr>Deleted = Some [''test-dir/file1.txt''], Errors = Some []\<rparr>)
          (Keys [''test-dir/file1.txt'']) []) =
     [DeleteObjects (Some ''test-bucket'') [''test-dir/file1.txt'']] \<and>
   (\<exists>msg. fst (delete_files mock_config
          (mock_world PosixPath [] [] \<lparr>Deleted = Some [''test-dir/file1.txt''], Errors = Some []\<rparr>)
          (Keys [''test-dir/file1.txt'']) []) =
        Inr \<lparr>success = True, message = msg, error = ENone\<rparr> \<and> sublist ''1'' msg)"
proof -
  let ?resp = "\<lparr>Deleted = Some [''test-dir/file1.txt''], Errors = Some []\<rparr>"
  let ?w = "mock_world PosixPath [] [] ?resp"
  have call: "delete_objects ?w [] (s3_bucket_name mock_config) (key_batch (Keys [''test-dir/file1.txt''])) =
      Inr ?resp"
    by (simp add: mock_world_def)
  have b: "s3_bucket_name mock_config = Some ''test-bucket''"
    by (simp add: mock_config_def)
  from delete_files_outcomes [of "Keys [''test-dir/file1.txt'']" mock_config ?w "[]"] call
  have "snd (delete_files mock_config ?w (Keys [''test-dir/file1.txt'']) []) =
        [DeleteObjects (s3_bucket_name mock_config) [''test-dir/file1.txt'']]"
    and "\<exists>msg. fst (delete_files mock_config ?w (Keys [''test-dir/file1.txt'']) []) =
        Inr \<lparr>success = True, message = msg, error = ENone\<rparr> \<and> sublist ''1'' msg"
    by auto
  with call b show ?thesis by simp
qed

text \<open>
  The claim C8 as stated fails in its example: a deletion of one key that the service
  answers without \<open>Errors\<close> and without \<open>Deleted\<close> entries reports \<open>Deleted 0 files.\<close>
\<close>

theorem delete_files_count_is_reported:
  "delete_files mock_config (mock_world PosixPath [] [] \<lparr>Deleted = None, Errors = Some []\<rparr>)
      (Keys [''k1'']) [] =
     (Inr \<lparr>success = True, message = ''Deleted 0 files.'', error = ENone\<rparr>,
      [DeleteObjects (Some ''test-bucket'') [''k1'']]) \<and>
   \<not> sublist ''1'' ''Deleted 0 files.''"
proof -
  have "\<not> sublist ''1'' ''Deleted 0 files.''"
    by code_simp
  then show ?thesis
    by (simp add: delete_files_def mock_config_def mock_world_def str_nat.simps digit_char_def)
qed

section \<open>Success and error of the batch results\<close>

lemma upload_parallel_record:
  "upload_parallel cfg w sch files tr = (Inr r, tr') \<Longrightarrow> success r \<longleftrightarrow> error_absent (error r)"
  by (auto simp: upload_parallel_def split: prod.splits if_splits)

lemma upload_sequential_record:
  "upload_sequential cfg w files tr = (Inr r, tr') \<Longrightarrow> success r \<longleftrightarrow> error_absent (error r)"
  by (auto simp: upload_sequential_def split: prod.splits option.splits)

lemma delete_files_record:
  "key_batch arg \<noteq> [] \<Longrightarrow> delete_files cfg w arg tr = (Inr r, tr') \<Longrightarrow>
   success r \<longleftrightarrow> error_absent (error r)"
  by (auto simp: delete_files_def Let_def split: sum.splits exn.splits if_splits)

text \<open>
  C1, as the code has it. A record returned by \<open>upload_files\<close> on a list, in either mode, and
  a record returned by \<open>delete_files\<close> on a batch that is not empty, has \<open>success\<close> true exactly
  when its \<open>error\<close> is \<open>None\<close> or empty. On an empty batch \<open>delete_files\<close> returns \<open>success\<close>
  false together with \<open>error\<close> \<open>None\<close>.
\<close>

theorem batch_success_iff_no_error:
  "(upload_files cfg w sch (Paths files) parallel_flag tr = (Inr r, tr') \<longrightarrow>
      (success r \<longleftrightarrow> error_absent (error r))) \<and>
   (key_batch arg \<noteq> [] \<and> delete_files cfg w arg tr = (Inr r', tr'') \<longrightarrow>
      (success r' \<longleftrightarrow> error_absent (error r'))) \<and>
   (key_batch arg = [] \<longrightarrow>
      delete_files cfg w arg tr =
        (Inr \<lparr>success = False, message = ''No keys provided for deletion.'', error = ENone\<rparr>, tr))"
proof -
  have "upload_files cfg w sch (Paths files) parallel_flag tr = (Inr r, tr') \<longrightarrow>
      (success r \<longleftrightarrow> error_absent (error r))"
    using upload_parallel_record upload_sequential_record by (cases parallel_flag) auto
  moreover have "key_batch arg \<noteq> [] \<and> delete_files cfg w arg tr = (Inr r', tr'') \<longrightarrow>
      (success r' \<longleftrightarrow> error_absent (error r'))"
    using delete_files_record by blast
  moreover have "key_batch arg = [] \<longrightarrow>
      delete_files cfg w arg tr =
        (Inr \<lparr>success = False, message = ''No keys provided for deletion.'', error = ENone\<rparr>, tr)"
    by (simp add: delete_files_def)
  ultimately show ?thesis by blast
qed

theorem batch_success_iff_no_error_witness:
  "upload_files mock_config (mock_world PosixPath [''file1.txt'', ''file2.txt''] [] \<lparr>Deleted = None, Errors = None\<rparr>)
      (in_order 2) (Paths [''file1.txt'', ''file2.txt'']) False [] =
     (Inr \<lparr>success = True, message = ''Uploaded 2 files.'', error = ENone\<rparr>,
      [IsFile ''file1.txt'', UploadFile ''file1.txt'' (Some ''test-bucket'') ''test-dir/file1.txt'',
       IsFile ''file2.txt'', UploadFile ''file2.txt'' (Some ''test-bucket'') ''test-dir/file2.txt'']) \<and>
   (success \<lparr>success = True, message = ''Uploaded 2 files.'', error = ENone\<rparr> \<longleftrightarrow>
      error_absent (error \<lparr>success = True, message = ''Uploaded 2 files.'', error = ENone\<rparr>)) \<and>
   key_batch (Keys [''k1'']) \<noteq> [] \<and>
   delete_files mock_config
       (mock_world PosixPath [''file1.txt'', ''file2.txt''] [] \<lparr>Deleted = None, Errors = None\<rparr>)
       (Keys [''k1'']) [] =
     (Inr \<lparr>success = True, message = ''Deleted 0 files.'', error = ENone\<rparr>,
      [DeleteObjects (Some ''test-bucket'') [''k1'']])"
proof -
  let ?w = "mock_world PosixPath [''file1.txt'', ''file2.txt''] [] \<lparr>Deleted = None, Errors = None\<rparr>"
  have key1: "s3_key PosixPath ''test-dir/'' ''file1.txt'' = ''test-dir/file1.txt''"
    by (simp add: s3_key_def replace_backslash_def posix_basename_def posix_join_def slash_def
        backslash_def)
  have key2: "s3_key PosixPath ''test-dir/'' ''file2.txt'' = ''test-dir/file2.txt''"
    by (simp add: s3_key_def replace_backslash_def posix_basename_def posix_join_def slash_def
        backslash_def)
  have up: "upload_files mock_config ?w (in_order 2) (Paths [''file1.txt'', ''file2.txt'']) False [] =
     (Inr \<lparr>success = True, message = ''Uploaded 2 files.'', error = ENone\<rparr>,
      [IsFile ''file1.txt'', UploadFile ''file1.txt'' (Some ''test-bucket'') ''test-dir/file1.txt'',
       IsFile ''file2.txt'', UploadFile ''file2.txt'' (Some ''test-bucket'') ''test-dir/file2.txt''])"
    by (simp add: upload_sequential_def upload_single_def mock_config_def mock_world_def key1 key2
        str_nat.simps digit_char_def Let_def)
  have del: "delete_files mock_config ?w (Keys [''k1'']) [] =
     (Inr \<lparr>success = True, message = ''Deleted 0 files.'', error = ENone\<rparr>,
      [DeleteObjects (Some ''test-bucket'') [''k1'']])"
    by (simp add: delete_files_def mock_config_def mock_world_def str_nat.simps digit_char_def)
  from batch_success_iff_no_error [of mock_config ?w "in_order 2" "[''file1.txt'', ''file2.txt'']" False "[]"
      _ _ "Keys [''k1'']"] up del
  show ?thesis by simp
qed

text \<open>
  The claim C1 as stated fails on the empty batch: \<open>success\<close> is false and \<open>error\<close> is \<open>None\<close>.
\<close>

theorem empty_delete_breaks_iff:
  "delete_files mock_config (mock_world PosixPath [] [] \<lparr>Deleted = None, Errors = None\<rparr>)
      (Keys []) [] =
     (Inr \<lparr>success = False, message = ''No keys provided for deletion.'', error = ENone\<rparr>, []) \<and>
   \<not> (success \<lparr>success = False, message = ''No keys provided for deletion.'', error = ENone\<rparr> \<longleftrightarrow>
       error_absent (error \<lparr>success = False, message = ''No keys provided for deletion.'', error = ENone\<rparr>))"
  by (simp add: delete_files_def)

section \<open>The sequential mode\<close>

lemma attempted_upload_single:
  "attempted (snd (upload_single cfg w p tr)) = attempted tr @ [p]"
  by (simp add: upload_single_def Let_def attempted_append split: option.split exn.split)

lemma after_items_append:
  "after_items cfg w (xs @ ys) tr = after_items cfg w ys (after_items cfg w xs tr)"
  by (simp add: after_items_def)

lemma after_items_Cons:
  "after_items cfg w (x # xs) tr = after_items cfg w xs (snd (upload_single cfg w x tr))"
  by (simp add: after_items_def)

lemma after_items_Nil: "after_items cfg w [] tr = tr"
  by (simp add: after_items_def)

lemma attempted_after_items:
  "attempted (after_items cfg w ps tr) = attempted tr @ ps"
  by (induction ps arbitrary: tr) (simp_all add: after_items_Nil after_items_Cons attempted_upload_single)

lemma upload_each_append:
  "upload_each cfg w (xs @ ys) tr =
     (case upload_each cfg w xs tr of
        (None, t) \<Rightarrow> upload_each cfg w ys t
      | (Some e, t) \<Rightarrow> (Some e, t))"
  by (induction xs arbitrary: tr) (auto split: prod.splits sum.splits option.splits)

lemma item_outcome_take:
  "j < k \<Longrightarrow> k \<le> length files \<Longrightarrow>
   item_outcome cfg w (take k files) tr j = item_outcome cfg w files tr j"
  by (simp add: item_outcome_def min_def)

lemma upload_each_all_ok:
  "(\<And>k. k < length files \<Longrightarrow> \<exists>r. item_outcome cfg w files tr k = Inr r) \<Longrightarrow>
   upload_each cfg w files tr = (None, after_items cfg w files tr)"
proof (induction files rule: rev_induct)
  case Nil
  show ?case by (simp add: after_items_Nil)
next
  case (snoc x xs)
  have "\<exists>r. item_outcome cfg w xs tr k = Inr r" if "k < length xs" for k
  proof -
    from that have "item_outcome cfg w (xs @ [x]) tr k = item_outcome cfg w xs tr k"
      by (simp add: item_outcome_def nth_append)
    moreover have "\<exists>r. item_outcome cfg w (xs @ [x]) tr k = Inr r"
      using snoc.prems [of k] that by simp
    ultimately show ?thesis by simp
  qed
  then have xs: "upload_each cfg w xs tr = (None, after_items cfg w xs tr)"
    by (rule snoc.IH)
  obtain r where "item_outcome cfg w (xs @ [x]) tr (length xs) = Inr r"
    using snoc.prems [of "length xs"] by auto
  then have x: "fst (upload_single cfg w x (after_items cfg w xs tr)) = Inr r"
    by (simp add: item_outcome_def)
  show ?case
    using xs x
    by (cases "upload_single cfg w x (after_items cfg w xs tr)")
      (simp add: upload_each_append after_items_append after_items_Cons after_items_Nil)
qed

lemma upload_each_first_failure:
  assumes k: "k < length files"
    and before: "\<And>j. j < k \<Longrightarrow> \<exists>r. item_outcome cfg w files tr j = Inr r"
    and at: "item_outcome cfg w files tr k = Inl e"
  shows "upload_each cfg w files tr = (Some e, after_items cfg w (take (Suc k) files) tr)"
proof -
  have "\<exists>r. item_outcome cfg w (take k files) tr j = Inr r" if "j < length (take k files)" for j
    using that k before [of j] by (simp add: item_outcome_take)
  then have pre: "upload_each cfg w (take k files) tr = (None, after_items cfg w (take k files) tr)"
    by (rule upload_each_all_ok)
  have split: "files = take k files @ (files ! k) # drop (Suc k) files"
    using k by (simp add: id_take_nth_drop)
  have fail: "fst (upload_single cfg w (files ! k) (after_items cfg w (take k files) tr)) = Inl e"
    using at by (simp add: item_outcome_def)
  have last: "after_items cfg w (take (Suc k) files) tr =
      snd (upload_single cfg w (files ! k) (after_items cfg w (take k files) tr))"
    using k by (simp add: take_Suc_conv_app_nth after_items_append after_items_Cons after_items_Nil)
  have "upload_each cfg w files tr =
      upload_each cfg w ((files ! k) # drop (Suc k) files) (after_items cfg w (take k files) tr)"
    by (subst split) (simp add: upload_each_append pre)
  also have "\<dots> = (Some e, after_items cfg w (take (Suc k) files) tr)"
    using fail last
    by (cases "upload_single cfg w (files ! k) (after_items cfg w (take k files) tr)") simp
  finally show ?thesis .
qed

text \<open>
  C3. In the sequential mode the single-path branch runs once on each item, in the order of
  the list, each run starting where the one before it stopped. When item \<open>k\<close> is the first
  whose run raises, \<open>upload_files\<close> raises that same exception, the trace is the one that run
  left, and the paths tried are the first \<open>k + 1\<close> items: no later item is touched. When the
  run of every item returns, \<open>upload_files\<close> returns the record of success whose message
  holds the number of items, and the paths tried are the items of the list, in order.
\<close>

theorem sequential_upload_fails_fast:
  "(k < length files \<and> (\<forall>j<k. \<exists>r. item_outcome cfg w files tr j = Inr r) \<and>
      item_outcome cfg w files tr k = Inl e \<longrightarrow>
      upload_files cfg w sch (Paths files) False tr =
        (Inl e, after_items cfg w (take (Suc k) files) tr) \<and>
      attempted (after_items cfg w (take (Suc k) files) tr) = attempted tr @ take (Suc k) files) \<and>
   ((\<forall>j<length files. \<exists>r. item_outcome cfg w files tr j = Inr r) \<longrightarrow>
      upload_files cfg w sch (Paths files) False tr =
        (Inr \<lparr>success = True,
              message = ''Uploaded '' @ str_nat (length files) @ '' files.'',
              error = ENone\<rparr>, after_items cfg w files tr) \<and>
      attempted (after_items cfg w files tr) = attempted tr @ files \<and>
      sublist (str_nat (length files)) (''Uploaded '' @ str_nat (length files) @ '' files.''))"
proof -
  have fail: "upload_files cfg w sch (Paths files) False tr =
        (Inl e, after_items cfg w (take (Suc k) files) tr)"
    if "k < length files" "\<forall>j<k. \<exists>r. item_outcome cfg w files tr j = Inr r"
      "item_outcome cfg w files tr k = Inl e"
    using upload_each_first_failure [of k files cfg w tr e] that
    by (simp add: upload_sequential_def)
  have ok: "upload_files cfg w sch (Paths files) False tr =
        (Inr \<lparr>success = True,
              message = ''Uploaded '' @ str_nat (length files) @ '' files.'',
              error = ENone\<rparr>, after_items cfg w files tr)"
    if "\<forall>j<length files. \<exists>r. item_outcome cfg w files tr j = Inr r"
    using upload_each_all_ok [of files cfg w tr] that
    by (simp add: upload_sequential_def)
  have msg: "sublist (str_nat (length files)) (''Uploaded '' @ str_nat (length files) @ '' files.'')"
    by (rule sublist_middle)
  from fail ok msg attempted_after_items show ?thesis by blast
qed

theorem sequential_upload_fails_fast_witness:
  "(1::nat) < length [''file1.txt'', ''missing.txt'', ''file3.txt''] \<and>
   item_outcome mock_config (mock_world PosixPath [''file1.txt'', ''file3.txt''] [] \<lparr>Deleted = None, Errors = None\<rparr>)
      [''file1.txt'', ''missing.txt'', ''file3.txt''] [] 0 =
     Inr \<lparr>success = True, message = ''Uploaded to s3://test-bucket/test-dir/file1.txt'', error = ENone\<rparr> \<and>
   item_outcome mock_config (mock_world PosixPath [''file1.txt'', ''file3.txt''] [] \<lparr>Deleted = None, Errors = None\<rparr>)
      [''file1.txt'', ''missing.txt'', ''file3.txt''] [] 1 =
     Inl (UploadError ''File not found: missing.txt'') \<and>
   upload_files mock_config (mock_world PosixPath [''file1.txt'', ''file3.txt''] [] \<lparr>Deleted = None, Errors = None\<rparr>)
      (in_order 3) (Paths [''file1.txt'', ''missing.txt'', ''file3.txt'']) False [] =
     (Inl (UploadError ''File not found: missing.txt''),
      [IsFile ''file1.txt'', UploadFile ''file1.txt'' (Some ''test-bucket'') ''test-dir/file1.txt'',
       IsFile ''missing.txt'']) \<and>
   item_outcome mock_config (mock_world PosixPath [''file1.txt'', ''file3.txt''] [] \<lparr>Deleted = None, Errors = None\<rparr>)
      [''file1.txt'', ''file3.txt''] [] 1 =
     Inr \<lparr>success = True, message = ''Uploaded to s3://test-bucket/test-dir/file3.txt'', error = ENone\<rparr> \<and>
   upload_files mock_config (mock_world PosixPath [''file1.txt'', ''file3.txt''] [] \<lparr>Deleted = None, Errors = None\<rparr>)
      (in_order 2) (Paths [''file1.txt'', ''file3.txt'']) False [] =
     (Inr \<lparr>success = True, message = ''Uploaded 2 files.'', error = ENone\<rparr>,
      [IsFile ''file1.txt'', UploadFile ''file1.txt'' (Some ''test-bucket'') ''test-dir/file1.txt'',
       IsFile ''file3.txt'', UploadFile ''file3.txt'' (Some ''test-bucket'') ''test-dir/file3.txt''])"
proof -
  let ?w = "mock_world PosixPath [''file1.txt'', ''file3.txt''] [] \<lparr>Deleted = None, Errors = None\<rparr>"
  let ?r1 = "\<lparr>success = True, message = ''Uploaded to s3://test-bucket/test-dir/file1.txt'', error = ENone\<rparr>"
  let ?r3 = "\<lparr>success = True, message = ''Uploaded to s3://test-bucket/test-dir/file3.txt'', error = ENone\<rparr>"
  let ?t1 = "[IsFile ''file1.txt'', UploadFile ''file1.txt'' (Some ''test-bucket'') ''test-dir/file1.txt'']"
  have key1: "s3_key PosixPath ''test-dir/'' ''file1.txt'' = ''test-dir/file1.txt''"
    by (simp add: s3_key_def replace_backslash_def posix_basename_def posix_join_def slash_def
        backslash_def)
  have key3: "s3_key PosixPath ''test-dir/'' ''file3.txt'' = ''test-dir/file3.txt''"
    by (simp add: s3_key_def replace_backslash_def posix_basename_def posix_join_def slash_def
        backslash_def)
  have u1: "upload_single mock_config ?w ''file1.txt'' [] = (Inr ?r1, ?t1)"
    by (simp add: upload_single_def mock_config_def mock_world_def key1 Let_def)
  have um: "upload_single mock_config ?w ''missing.txt'' ?t1 =
      (Inl (UploadError ''File not found: missing.txt''), ?t1 @ [IsFile ''missing.txt''])"
    by (simp add: upload_single_def mock_world_def)
  have u3: "upload_single mock_config ?w ''file3.txt'' ?t1 =
      (Inr ?r3, ?t1 @ [IsFile ''file3.txt'', UploadFile ''file3.txt'' (Some ''test-bucket'') ''test-dir/file3.txt''])"
    by (simp add: upload_single_def mock_config_def mock_world_def key3 Let_def)
  have a0: "item_outcome mock_config ?w [''file1.txt'', ''missing.txt'', ''file3.txt''] [] 0 = Inr ?r1"
    by (simp add: item_outcome_def after_items_def u1)
  have a1: "item_outcome mock_config ?w [''file1.txt'', ''missing.txt'', ''file3.txt''] [] 1 =
      Inl (UploadError ''File not found: missing.txt'')"
    by (simp add: item_outcome_def after_items_def u1 um)
  have b0: "item_outcome mock_config ?w [''file1.txt'', ''file3.txt''] [] 0 = Inr ?r1"
    by (simp add: item_outcome_def after_items_def u1)
  have b1: "item_outcome mock_config ?w [''file1.txt'', ''file3.txt''] [] 1 = Inr ?r3"
    by (simp add: item_outcome_def after_items_def u1 u3)
  have a: "\<forall>j<1. \<exists>r. item_outcome mock_config ?w [''file1.txt'', ''missing.txt'', ''file3.txt''] [] j = Inr r"
    using a0 by simp
  have b: "\<forall>j<length [''file1.txt'', ''file3.txt''].
      \<exists>r. item_outcome mock_config ?w [''file1.txt'', ''file3.txt''] [] j = Inr r"
    using b0 b1 by (simp add: less_Suc_eq)
  have ta: "after_items mock_config ?w (take (Suc 1) [''file1.txt'', ''missing.txt'', ''file3.txt'']) [] =
      ?t1 @ [IsFile ''missing.txt'']"
    by (simp add: after_items_def u1 um)
  have tb: "after_items mock_config ?w [''file1.txt'', ''file3.txt''] [] =
      ?t1 @ [IsFile ''file3.txt'', UploadFile ''file3.txt'' (Some ''test-bucket'') ''test-dir/file3.txt'']"
    by (simp add: after_items_def u1 u3)
  have n: "str_nat (length [''file1.txt'', ''file3.txt'']) = ''2''"
    by (simp add: str_nat.simps digit_char_def)
  have "upload_files mock_config ?w (in_order 3) (Paths [''file1.txt'', ''missing.txt'', ''file3.txt'']) False [] =
      (Inl (UploadError ''File not found: missing.txt''), ?t1 @ [IsFile ''missing.txt''])"
    using sequential_upload_fails_fast [of 1 "[''file1.txt'', ''missing.txt'', ''file3.txt'']"
        mock_config ?w "[]" "UploadError ''File not found: missing.txt''" "in_order 3"] a a1 ta
    by simp
  moreover have "upload_files mock_config ?w (in_order 2) (Paths [''file1.txt'', ''file3.txt'']) False [] =
      (Inr \<lparr>success = True, message = ''Uploaded 2 files.'', error = ENone\<rparr>,
       ?t1 @ [IsFile ''file3.txt'', UploadFile ''file3.txt'' (Some ''test-bucket'') ''test-dir/file3.txt''])"
    using sequential_upload_fails_fast [of 0 "[''file1.txt'', ''file3.txt'']"
        mock_config ?w "[]" "UploadError []" "in_order 2"] b tb n
    by simp
  ultimately show ?thesis using a0 a1 b1 by simp
qed

section \<open>The parallel mode\<close>

lemma run_tasks_closed:
  "run_tasks cfg w files order tr =
     (map (\<lambda>pos. (order ! pos, task_outcome cfg w files order tr pos)) [0..<length order],
      after_items cfg w (map ((!) files) order) tr)"
proof (induction order arbitrary: tr)
  case Nil
  show ?case by (simp add: after_items_Nil)
next
  case (Cons i rest)
  let ?t = "snd (upload_single cfg w (files ! i) tr)"
  have shift: "task_outcome cfg w files (i # rest) tr (Suc pos) = task_outcome cfg w files rest ?t pos"
    for pos
    by (simp add: task_outcome_def after_items_Cons)
  have first: "task_outcome cfg w files (i # rest) tr 0 = fst (upload_single cfg w (files ! i) tr)"
    by (simp add: task_outcome_def after_items_Nil)
  have "map (\<lambda>pos. ((i # rest) ! pos, task_outcome cfg w files (i # rest) tr pos))
          [0..<length (i # rest)] =
        (i, fst (upload_single cfg w (files ! i) tr)) #
        map (\<lambda>pos. (rest ! pos, task_outcome cfg w files rest ?t pos)) [0..<length rest]"
  proof -
    have "[0..<length (i # rest)] = 0 # map Suc [0..<length rest]"
      by (simp add: upt_conv_Cons map_Suc_upt del: upt_Suc)
    then show ?thesis
      by (simp add: shift first comp_def del: upt_Suc)
  qed
  then show ?case
    using Cons.IH [of ?t]
    by (cases "upload_single cfg w (files ! i) tr") (simp add: after_items_Cons)
qed

lemma collect_errors:
  "(\<And>i. i \<in> set ds \<Longrightarrow> m i = Some (outs i)) \<Longrightarrow>
   fst (snd (collect files m ds (rs, es, fs))) = es @ concat (map (error_entry files outs) ds)"
proof (induction ds arbitrary: rs es fs)
  case Nil
  show ?case by simp
next
  case (Cons i ds)
  have i: "m i = Some (outs i)" using Cons.prems by simp
  have rest: "\<And>j. j \<in> set ds \<Longrightarrow> m j = Some (outs j)" using Cons.prems by simp
  show ?case
  proof (cases "outs i")
    case (Inl exc)
    then show ?thesis
      using Cons.IH [OF rest] i by (simp add: error_entry_def)
  next
    case (Inr r)
    then show ?thesis
      using Cons.IH [OF rest] i by (simp add: error_entry_def)
  qed
qed

lemma perm_upt_facts:
  assumes "mset order = mset [0..<n]"
  shows "distinct order" "length order = n" "set order = {0..<n}"
proof -
  show "distinct order"
    using assms distinct_upt mset_eq_imp_distinct_iff by blast
  show "length order = n"
    using assms mset_eq_length by fastforce
  show "set order = {0..<n}"
    using assms mset_eq_setD by fastforce
qed

lemma mset_map_nth_perm:
  assumes "mset order = mset [0..<length files]"
  shows "mset (map ((!) files) order) = mset files"
proof -
  have "mset (map ((!) files) order) = image_mset ((!) files) (mset order)" by simp
  also have "\<dots> = image_mset ((!) files) (mset [0..<length files])" using assms by simp
  also have "\<dots> = mset (map ((!) files) [0..<length files])" by simp
  also have "\<dots> = mset files" by (simp add: map_nth)
  finally show ?thesis .
qed

lemma mset_concat_map_perm:
  assumes "mset xs = mset ys"
  shows "mset (concat (map f xs)) = mset (concat (map f ys))"
proof -
  have "mset (concat (map f zs)) = (\<Sum>z\<in>#mset zs. mset (f z))" for zs
    by (induction zs) simp_all
  with assms show ?thesis by simp
qed

text \<open>
  C2. In the parallel mode, for a run order and a completion order that each list every task
  once: every task has an outcome, the outcome of the single-path branch on its file run
  after the tasks before it in the run order, whatever those did; the paths tried are the
  files of the list, each once; the error list holds, in completion order, one entry
  \<open>(file, detail)\<close> for every task whose outcome is a raised exception or a result of
  failure, so up to order it is the list of the failures of the items; and \<open>upload_files\<close>
  returns, never raises: the record of failure with that list when it is not empty, else
  the record of success whose message holds the number of files.
\<close>

theorem parallel_upload_collects_every_outcome:
  assumes ro: "mset (run_order sch) = mset [0..<length files]"
    and don: "mset (done_order sch) = mset [0..<length files]"
  shows "\<exists>outs errors.
     (\<forall>pos<length files.
        outs (run_order sch ! pos) = task_outcome cfg w files (run_order sch) tr pos) \<and>
     errors = concat (map (error_entry files outs) (done_order sch)) \<and>
     mset errors = mset (concat (map (error_entry files outs) [0..<length files])) \<and>
     upload_files cfg w sch (Paths files) True tr =
       (Inr (if errors = []
             then \<lparr>success = True,
                   message = ''Uploaded '' @ str_nat (length files) @ '' files in parallel.'',
                   error = ENone\<rparr>
             else \<lparr>success = False, message = ''Some files failed to upload.'',
                   error = EFiles errors\<rparr>),
        after_items cfg w (map ((!) files) (run_order sch)) tr) \<and>
     attempted (after_items cfg w (map ((!) files) (run_order sch)) tr) =
       attempted tr @ map ((!) files) (run_order sch) \<and>
     mset (map ((!) files) (run_order sch)) = mset files"
proof -
  let ?order = "run_order sch"
  let ?n = "length files"
  let ?outs_list = "map (\<lambda>pos. (?order ! pos, task_outcome cfg w files ?order tr pos)) [0..<length ?order]"
  let ?tr1 = "after_items cfg w (map ((!) files) ?order) tr"
  define outs where
    "outs i = (case map_of ?outs_list i of Some r \<Rightarrow> r | None \<Rightarrow> Inl (OtherException []))" for i
  define errors where "errors = concat (map (error_entry files outs) (done_order sch))"
  have run: "run_tasks cfg w files ?order tr = (?outs_list, ?tr1)"
    by (rule run_tasks_closed)
  have dist: "distinct ?order" and len: "length ?order = ?n" and set_order: "set ?order = {0..<?n}"
    using perm_upt_facts [OF ro] by auto
  have keys: "map fst ?outs_list = ?order"
    by (simp add: comp_def map_nth)
  have at_pos: "map_of ?outs_list (?order ! pos) = Some (task_outcome cfg w files ?order tr pos)"
    if "pos < ?n" for pos
  proof -
    have "(?order ! pos, task_outcome cfg w files ?order tr pos) \<in> set ?outs_list"
      using that len by (auto simp: image_iff)
    moreover have "distinct (map fst ?outs_list)"
      using dist keys by simp
    ultimately show ?thesis
      by (simp only: map_of_eq_Some_iff)
  qed
  have outs_pos: "\<forall>pos<?n. outs (?order ! pos) = task_outcome cfg w files ?order tr pos"
    using at_pos by (simp add: outs_def)
  have known: "map_of ?outs_list i = Some (outs i)" if "i \<in> set (done_order sch)" for i
  proof -
    from that have "i \<in> set ?order"
      using perm_upt_facts(3) [OF don] set_order by simp
    then obtain pos where "pos < length ?order" "?order ! pos = i"
      by (auto simp: in_set_conv_nth)
    then show ?thesis
      using at_pos [of pos] len by (simp add: outs_def)
  qed
  have coll: "fst (snd (collect files (map_of ?outs_list) (done_order sch) ([], [], []))) = errors"
    using collect_errors [of "done_order sch" "map_of ?outs_list" outs files "[]" "[]" "[]"] known
    by (simp add: errors_def)
  have res: "upload_files cfg w sch (Paths files) True tr =
       (Inr (if errors = []
             then \<lparr>success = True,
                   message = ''Uploaded '' @ str_nat (length files) @ '' files in parallel.'',
                   error = ENone\<rparr>
             else \<lparr>success = False, message = ''Some files failed to upload.'',
                   error = EFiles errors\<rparr>), ?tr1)"
    using coll
    by (cases "collect files (map_of ?outs_list) (done_order sch) ([], [], [])")
      (simp add: upload_parallel_def run)
  have up_to_order: "mset errors = mset (concat (map (error_entry files outs) [0..<?n]))"
    unfolding errors_def using don by (rule mset_concat_map_perm)
  have att: "attempted ?tr1 = attempted tr @ map ((!) files) ?order"
    by (rule attempted_after_items)
  have all: "mset (map ((!) files) ?order) = mset files"
    using ro by (rule mset_map_nth_perm)
  from outs_pos errors_def up_to_order res att all show ?thesis by blast
qed

theorem parallel_upload_collects_every_outcome_witness:
  "mset (run_order \<lparr>run_order = [Suc 0, 0], done_order = [Suc 0, 0]\<rparr>) =
     mset [0..<length [''file1.txt'', ''file2.txt'']] \<and>
   mset (done_order \<lparr>run_order = [Suc 0, 0], done_order = [Suc 0, 0]\<rparr>) =
     mset [0..<length [''file1.txt'', ''file2.txt'']] \<and>
   upload_files mock_config
       (mock_world PosixPath [''file1.txt'', ''file2.txt''] [''file2.txt'']
          \<lparr>Deleted = None, Errors = None\<rparr>)
       \<lparr>run_order = [Suc 0, 0], done_order = [Suc 0, 0]\<rparr>
       (Paths [''file1.txt'', ''file2.txt'']) True [] =
     (Inr \<lparr>success = False, message = ''Some files failed to upload.'',
           error = EFiles [(''file2.txt'', EStr ''Failed to upload file2.txt to S3: transport'')]\<rparr>,
      [IsFile ''file2.txt'', UploadFile ''file2.txt'' (Some ''test-bucket'') ''test-dir/file2.txt'',
       IsFile ''file1.txt'', UploadFile ''file1.txt'' (Some ''test-bucket'') ''test-dir/file1.txt''])"
proof -
  let ?w = "mock_world PosixPath [''file1.txt'', ''file2.txt''] [''file2.txt'']
      \<lparr>Deleted = None, Errors = None\<rparr>"
  let ?sch = "\<lparr>run_order = [Suc 0, 0], done_order = [Suc 0, 0]\<rparr>"
  let ?files = "[''file1.txt'', ''file2.txt'']"
  let ?t2 = "[IsFile ''file2.txt'', UploadFile ''file2.txt'' (Some ''test-bucket'') ''test-dir/file2.txt'']"
  let ?r1 = "\<lparr>success = True, message = ''Uploaded to s3://test-bucket/test-dir/file1.txt'', error = ENone\<rparr>"
  have key1: "s3_key PosixPath ''test-dir/'' ''file1.txt'' = ''test-dir/file1.txt''"
    by (simp add: s3_key_def replace_backslash_def posix_basename_def posix_join_def slash_def
        backslash_def)
  have key2: "s3_key PosixPath ''test-dir/'' ''file2.txt'' = ''test-dir/file2.txt''"
    by (simp add: s3_key_def replace_backslash_def posix_basename_def posix_join_def slash_def
        backslash_def)
  have u2: "upload_single mock_config ?w ''file2.txt'' [] =
      (Inl (UploadError ''Failed to upload file2.txt to S3: transport''), ?t2)"
    by (simp add: upload_single_def mock_config_def mock_world_def key2 Let_def)
  have u1: "upload_single mock_config ?w ''file1.txt'' ?t2 =
      (Inr ?r1, ?t2 @ [IsFile ''file1.txt'',
         UploadFile ''file1.txt'' (Some ''test-bucket'') ''test-dir/file1.txt''])"
    by (simp add: upload_single_def mock_config_def mock_world_def key1 Let_def)
  have ro: "mset (run_order ?sch) = mset [0..<length ?files]"
    by (simp add: upt_conv_Cons)
  have don: "mset (done_order ?sch) = mset [0..<length ?files]"
    by (simp add: upt_conv_Cons)
  have t0: "task_outcome mock_config ?w ?files (run_order ?sch) [] 0 =
      Inl (UploadError ''Failed to upload file2.txt to S3: transport'')"
    by (simp add: task_outcome_def after_items_def u2)
  have t1: "task_outcome mock_config ?w ?files (run_order ?sch) [] (Suc 0) = Inr ?r1"
    by (simp add: task_outcome_def after_items_def u2 u1)
  have tr: "after_items mock_config ?w (map ((!) ?files) (run_order ?sch)) [] =
      ?t2 @ [IsFile ''file1.txt'', UploadFile ''file1.txt'' (Some ''test-bucket'') ''test-dir/file1.txt'']"
    by (simp add: after_items_def u2 u1)
  from parallel_upload_collects_every_outcome [OF ro don, of mock_config ?w "[]"]
  obtain outs errors where
    o: "\<forall>pos<length ?files. outs (run_order ?sch ! pos) =
          task_outcome mock_config ?w ?files (run_order ?sch) [] pos"
    and e: "errors = concat (map (error_entry ?files outs) (done_order ?sch))"
    and r: "upload_files mock_config ?w ?sch (Paths ?files) True [] =
       (Inr (if errors = []
             then \<lparr>success = True,
                   message = ''Uploaded '' @ str_nat (length ?files) @ '' files in parallel.'',
                   error = ENone\<rparr>
             else \<lparr>success = False, message = ''Some files failed to upload.'',
                   error = EFiles errors\<rparr>),
        after_items mock_config ?w (map ((!) ?files) (run_order ?sch)) [])"
    by blast
  have o1: "outs (Suc 0) = Inl (UploadError ''Failed to upload file2.txt to S3: transport'')"
    using o [rule_format, of 0] t0 by simp
  have o0: "outs 0 = Inr ?r1"
    using o [rule_format, of "Suc 0"] t1 by simp
  have "errors = [(''file2.txt'', EStr ''Failed to upload file2.txt to S3: transport'')]"
    using e o0 o1 by (simp add: error_entry_def)
  with r tr ro don show ?thesis by simp
qed

section \<open>Resolving the configuration\<close>

lemma py_int_3: "py_int ''3'' = Some 3"
  by (simp add: py_int_def int_strip_def is_int_space_def int_space_chars_def digit_value_def
      int_max_str_digits_def)

lemma py_int_30: "py_int ''30'' = Some 30"
  by (simp add: py_int_def int_strip_def is_int_space_def int_space_chars_def digit_value_def
      int_max_str_digits_def)

lemma py_int_abc: "py_int ''abc'' = None"
  by (simp add: py_int_def int_strip_def is_int_space_def int_space_chars_def digit_value_def
      int_max_str_digits_def)

lemma py_int_45: "py_int ''45'' = Some 45"
  by (simp add: py_int_def int_strip_def is_int_space_def int_space_chars_def digit_value_def
      int_max_str_digits_def)

text \<open>
  A separator of the range 0x1C to 0x1F before the digits is not skipped: \<open>int\<close> raises,
  where \<open>str.strip\<close> would have removed it.
\<close>

lemma py_int_file_separator: "py_int [CHR 0x1C, CHR ''7''] = None \<and> strip [CHR 0x1C, CHR ''7''] = ''7''"
  by (simp add: py_int_def int_strip_def is_int_space_def int_space_chars_def digit_value_def
      strip_def lstrip_ws_def rstrip_ws_def is_space_def whitespace_chars_def)

lemma py_int_no_break_space: "py_int [CHR 0xA0, CHR ''7'', CHR 0x85] = Some 7"
  by (simp add: py_int_def int_strip_def is_int_space_def int_space_chars_def digit_value_def
      int_max_str_digits_def)

text \<open>A literal that \<open>int\<close> accepts is within the limit on digits (a sign comes on top).\<close>

lemma py_int_digit_limit:
  "py_int s = Some n \<Longrightarrow>
   length (filter (\<lambda>c. c \<noteq> CHR ''_'') (int_strip s)) \<le> Suc int_max_str_digits"
proof -
  assume a: "py_int s = Some n"
  let ?t = "int_strip s"
  let ?body = "if take 1 ?t = ''-'' \<or> take 1 ?t = ''+'' then drop 1 ?t else ?t"
  from a have "length (filter (\<lambda>c. c \<noteq> CHR ''_'') ?body) \<le> int_max_str_digits"
    by (auto simp: py_int_def Let_def split: list.splits option.splits if_splits)
  moreover have "length (filter (\<lambda>c. c \<noteq> CHR ''_'') ?t) \<le>
      Suc (length (filter (\<lambda>c. c \<noteq> CHR ''_'') ?body))"
    by (cases ?t) auto
  ultimately show ?thesis by linarith
qed

lemma from_env_ok:
  assumes "case environ ''AWS_MAX_RETRIES'' of None \<Rightarrow> r = 3 | Some v \<Rightarrow> py_int v = Some r"
    and "case environ ''AWS_TIMEOUT'' of None \<Rightarrow> t = 30 | Some v \<Rightarrow> py_int v = Some t"
  shows "from_env environ =
     Inr \<lparr>s3_bucket_name = environ ''S3_BUCKET_NAME'', s3_directory = environ ''S3_DIRECTORY'',
          aws_region = environ ''AWS_REGION'', aws_access_key_id = environ ''AWS_ACCESS_KEY_ID'',
          aws_secret_access_key = environ ''AWS_SECRET_ACCESS_KEY'',
          aws_session_token = environ ''AWS_SESSION_TOKEN'', aws_profile = environ ''AWS_PROFILE'',
          max_retries = r, timeout = t\<rparr>"
proof -
  have r: "py_int (environ_get environ ''AWS_MAX_RETRIES'' ''3'') = Some r"
    using assms(1) by (cases "environ ''AWS_MAX_RETRIES''") (simp_all add: environ_get_def py_int_3)
  have t: "py_int (environ_get environ ''AWS_TIMEOUT'' ''30'') = Some t"
    using assms(2) by (cases "environ ''AWS_TIMEOUT''") (simp_all add: environ_get_def py_int_30)
  show ?thesis
    by (simp add: from_env_def r t)
qed

lemma from_env_bad:
  assumes "(\<exists>v. environ ''AWS_MAX_RETRIES'' = Some v \<and> py_int v = None) \<or>
           (\<exists>v. environ ''AWS_TIMEOUT'' = Some v \<and> py_int v = None)"
  shows "\<exists>m. from_env environ = Inl (ValueError m)"
proof -
  have none: "py_int (environ_get environ name d) = None"
    if "environ name = Some v" "py_int v = None" for name d v
    using that by (simp add: environ_get_def)
  show ?thesis
    using assms
    by (auto simp: from_env_def int_error_def none split: option.split)
qed

text \<open>
  C5, as the code has it. With no configuration object: when \<open>AWS_MAX_RETRIES\<close> and
  \<open>AWS_TIMEOUT\<close> are each unset or hold an integer literal, every field of the resolved
  configuration is the keyword argument when one is passed, else the value of its
  environment variable (the integer it denotes, for the two numbers), else the default: the
  empty string for the bucket name and the directory, \<open>None\<close> for the other strings, 3 for
  \<open>max_retries\<close> and 30 for \<open>timeout\<close>. When one of the two variables is set to something
  \<open>int\<close> rejects, the constructor raises \<open>ValueError\<close>, whatever the keyword arguments are.
\<close>

theorem resolved_configuration_precedence:
  "((case environ ''AWS_MAX_RETRIES'' of None \<Rightarrow> r = 3 | Some v \<Rightarrow> py_int v = Some r) \<and>
    (case environ ''AWS_TIMEOUT'' of None \<Rightarrow> t = 30 | Some v \<Rightarrow> py_int v = Some t) \<longrightarrow>
    resolve_config None kw environ =
      Inr \<lparr>s3_bucket_name =
             (case kw_s3_bucket_name kw of
                Some v \<Rightarrow> v
              | None \<Rightarrow> Some (case environ ''S3_BUCKET_NAME'' of Some b \<Rightarrow> b | None \<Rightarrow> [])),
           s3_directory =
             (case kw_s3_directory kw of
                Some v \<Rightarrow> v
              | None \<Rightarrow> Some (case environ ''S3_DIRECTORY'' of Some d \<Rightarrow> d | None \<Rightarrow> [])),
           aws_region =
             (case kw_aws_region kw of Some v \<Rightarrow> v | None \<Rightarrow> environ ''AWS_REGION''),
           aws_access_key_id =
             (case kw_aws_access_key_id kw of Some v \<Rightarrow> v | None \<Rightarrow> environ ''AWS_ACCESS_KEY_ID''),
           aws_secret_access_key =
             (case kw_aws_secret_access_key kw of
                Some v \<Rightarrow> v
              | None \<Rightarrow> environ ''AWS_SECRET_ACCESS_KEY''),
           aws_session_token =
             (case kw_aws_session_token kw of Some v \<Rightarrow> v | None \<Rightarrow> environ ''AWS_SESSION_TOKEN''),
           aws_profile =
             (case kw_aws_profile kw of Some v \<Rightarrow> v | None \<Rightarrow> environ ''AWS_PROFILE''),
           max_retries = (case kw_max_retries kw of Some v \<Rightarrow> v | None \<Rightarrow> r),
           timeout = (case kw_timeout kw of Some v \<Rightarrow> v | None \<Rightarrow> t)\<rparr>) \<and>
   ((\<exists>v. environ ''AWS_MAX_RETRIES'' = Some v \<and> py_int v = None) \<or>
    (\<exists>v. environ ''AWS_TIMEOUT'' = Some v \<and> py_int v = None) \<longrightarrow>
    (\<exists>m. resolve_config None kw environ = Inl (ValueError m)))"
proof -
  have get: "kwargs_get k d = (case k of Some v \<Rightarrow> v | None \<Rightarrow> d)" for k :: "'a option" and d
    by (cases k) simp_all
  have emp: "or_empty x = (case x of Some b \<Rightarrow> b | None \<Rightarrow> [])" for x
    by (cases x) simp_all
  have ok: "resolve_config None kw environ =
      Inr \<lparr>s3_bucket_name =
             (case kw_s3_bucket_name kw of
                Some v \<Rightarrow> v
              | None \<Rightarrow> Some (case environ ''S3_BUCKET_NAME'' of Some b \<Rightarrow> b | None \<Rightarrow> [])),
           s3_directory =
             (case kw_s3_directory kw of
                Some v \<Rightarrow> v
              | None \<Rightarrow> Some (case environ ''S3_DIRECTORY'' of Some d \<Rightarrow> d | None \<Rightarrow> [])),
           aws_region =
             (case kw_aws_region kw of Some v \<Rightarrow> v | None \<Rightarrow> environ ''AWS_REGION''),
           aws_access_key_id =
             (case kw_aws_access_key_id kw of Some v \<Rightarrow> v | None \<Rightarrow> environ ''AWS_ACCESS_KEY_ID''),
           aws_secret_access_key =
             (case kw_aws_secret_access_key kw of
                Some v \<Rightarrow> v
              | None \<Rightarrow> environ ''AWS_SECRET_ACCESS_KEY''),
           aws_session_token =
             (case kw_aws_session_token kw of Some v \<Rightarrow> v | None \<Rightarrow> environ ''AWS_SESSION_TOKEN''),
           aws_profile =
             (case kw_aws_profile kw of Some v \<Rightarrow> v | None \<Rightarrow> environ ''AWS_PROFILE''),
           max_retries = (case kw_max_retries kw of Some v \<Rightarrow> v | None \<Rightarrow> r),
           timeout = (case kw_timeout kw of Some v \<Rightarrow> v | None \<Rightarrow> t)\<rparr>"
    if "case environ ''AWS_MAX_RETRIES'' of None \<Rightarrow> r = 3 | Some v \<Rightarrow> py_int v = Some r"
      "case environ ''AWS_TIMEOUT'' of None \<Rightarrow> t = 30 | Some v \<Rightarrow> py_int v = Some t"
    using from_env_ok [OF that] by (simp add: resolve_config_def get emp)
  have bad: "\<exists>m. resolve_config None kw environ = Inl (ValueError m)"
    if "(\<exists>v. environ ''AWS_MAX_RETRIES'' = Some v \<and> py_int v = None) \<or>
        (\<exists>v. environ ''AWS_TIMEOUT'' = Some v \<and> py_int v = None)"
    using from_env_bad [OF that] by (auto simp: resolve_config_def)
  from ok bad show ?thesis by blast
qed

theorem resolved_configuration_precedence_witness:
  "(case [''S3_BUCKET_NAME'' \<mapsto> ''env-bucket'', ''S3_DIRECTORY'' \<mapsto> ''env-dir/'',
          ''AWS_TIMEOUT'' \<mapsto> ''45''] ''AWS_MAX_RETRIES'' of
      None \<Rightarrow> (3::int) = 3 | Some v \<Rightarrow> py_int v = Some 3) \<and>
   (case [''S3_BUCKET_NAME'' \<mapsto> ''env-bucket'', ''S3_DIRECTORY'' \<mapsto> ''env-dir/'',
          ''AWS_TIMEOUT'' \<mapsto> ''45''] ''AWS_TIMEOUT'' of
      None \<Rightarrow> (45::int) = 30 | Some v \<Rightarrow> py_int v = Some 45) \<and>
   resolve_config None (no_kwargs\<lparr>kw_s3_directory := Some (Some ''kw-dir/'')\<rparr>)
       [''S3_BUCKET_NAME'' \<mapsto> ''env-bucket'', ''S3_DIRECTORY'' \<mapsto> ''env-dir/'',
        ''AWS_TIMEOUT'' \<mapsto> ''45''] =
     Inr \<lparr>s3_bucket_name = Some ''env-bucket'', s3_directory = Some ''kw-dir/'',
          aws_region = None, aws_access_key_id = None, aws_secret_access_key = None,
          aws_session_token = None, aws_profile = None, max_retries = 3, timeout = 45\<rparr> \<and>
   [''AWS_MAX_RETRIES'' \<mapsto> ''abc''] ''AWS_MAX_RETRIES'' = Some ''abc'' \<and> py_int ''abc'' = None \<and>
   (\<exists>m. resolve_config None (no_kwargs\<lparr>kw_max_retries := Some 5\<rparr>)
          [''AWS_MAX_RETRIES'' \<mapsto> ''abc''] = Inl (ValueError m))"
proof -
  let ?env = "[''S3_BUCKET_NAME'' \<mapsto> ''env-bucket'', ''S3_DIRECTORY'' \<mapsto> ''env-dir/'',
      ''AWS_TIMEOUT'' \<mapsto> ''45'']"
  have a: "case ?env ''AWS_MAX_RETRIES'' of None \<Rightarrow> (3::int) = 3 | Some v \<Rightarrow> py_int v = Some 3"
    by simp
  have b: "case ?env ''AWS_TIMEOUT'' of None \<Rightarrow> (45::int) = 30 | Some v \<Rightarrow> py_int v = Some 45"
    by (simp add: py_int_45)
  have c: "[''AWS_MAX_RETRIES'' \<mapsto> ''abc''] ''AWS_MAX_RETRIES'' = Some ''abc'' \<and> py_int ''abc'' = None"
    by (simp add: py_int_abc)
  have "resolve_config None (no_kwargs\<lparr>kw_s3_directory := Some (Some ''kw-dir/'')\<rparr>) ?env =
     Inr \<lparr>s3_bucket_name = Some ''env-bucket'', s3_directory = Some ''kw-dir/'',
          aws_region = None, aws_access_key_id = None, aws_secret_access_key = None,
          aws_session_token = None, aws_profile = None, max_retries = 3, timeout = 45\<rparr>"
    using resolved_configuration_precedence [where environ = ?env and r = 3 and t = 45
        and kw = "no_kwargs\<lparr>kw_s3_directory := Some (Some ''kw-dir/'')\<rparr>"] a b
    by (simp add: no_kwargs_def)
  moreover have "\<exists>m. resolve_config None (no_kwargs\<lparr>kw_max_retries := Some 5\<rparr>)
          [''AWS_MAX_RETRIES'' \<mapsto> ''abc''] = Inl (ValueError m)"
    using resolved_configuration_precedence [where environ = "[''AWS_MAX_RETRIES'' \<mapsto> ''abc'']"
        and r = 0 and t = 0 and kw = "no_kwargs\<lparr>kw_max_retries := Some 5\<rparr>"] c
    by blast
  ultimately show ?thesis using a b c by blast
qed

text \<open>
  The claim C5 as stated fails: with \<open>AWS_MAX_RETRIES\<close> set to \<open>abc\<close>, the keyword argument
  \<open>max_retries=5\<close> does not take effect; no configuration is resolved.
\<close>

theorem override_lost_on_bad_environment:
  "resolve_config None (no_kwargs\<lparr>kw_max_retries := Some 5\<rparr>) [''AWS_MAX_RETRIES'' \<mapsto> ''abc''] =
     Inl (ValueError (''invalid literal for int() with base 10: '' @ [CHR 0x27] @ ''abc'' @ [CHR 0x27])) \<and>
   (\<forall>c. resolve_config None (no_kwargs\<lparr>kw_max_retries := Some 5\<rparr>)
          [''AWS_MAX_RETRIES'' \<mapsto> ''abc''] \<noteq> Inr c)"
  by (simp add: resolve_config_def from_env_def environ_get_def py_int_abc int_error_def)

end
